theory Spec2Isabelle
  imports Main "HOL-Library.Word"
begin

section \<open>Declarations and canonical types\<close>

text \<open>
  The type checker's declaration model, as far as \<^verbatim>\<open>lib/IRGen/GenMeta.cpp\<close> reads it.
  Declarations are immutable trees; the pointer identity of the source is the
  structural equality of the model, every declaration carrying its name.
\<close>

datatype DeclKind = Class | Struct | Enum | Protocol

datatype NominalTypeDecl =
  NominalTypeDecl (declName: string) (declKind: DeclKind)
    (hasClangNode: bool) (hasGenericParamsOfContext: bool) (isInTypeContext: bool)

datatype CanType =
    BuiltinIntegerType nat
  | BuiltinFloatType nat
  | BuiltinRawPointerType
  | BuiltinObjectPointerType
  | BuiltinObjCPointerType
  | BuiltinVectorType CanType nat
  | NominalType NominalTypeDecl
  | BoundGenericType NominalTypeDecl "CanType list"
  | TupleType "(string \<times> CanType) list"
  | FunctionType CanType CanType
  | PolymorphicFunctionType CanType CanType
  | GenericFunctionType CanType CanType
  | ArrayType CanType nat
  | MetaTypeType CanType
  | ModuleType string
  | ProtocolCompositionType "CanType list"
  | ReferenceStorageType CanType
  | ArchetypeType string
  | GenericTypeParamType nat nat
  | DependentMemberType CanType string
  | LValueType CanType

datatype ExplosionKind = Minimal | Maximal

datatype DeclContext = NominalContext NominalTypeDecl | OtherContext

datatype FuncDecl =
  FuncDecl (fnName: string) (fnDeclContext: DeclContext) (fnHasClangNode: bool)
    (fnType: CanType) (getOverriddenDecl: "FuncDecl option")

datatype Member = FuncMember FuncDecl | VarMember string | OtherMember string

datatype ClassDecl =
  ClassDecl (classNominal: NominalTypeDecl) (isObjC: bool) (getMembers: "Member list")
    (getSuperclass: "(CanType \<times> ClassDecl) option")

datatype FunctionRef =
  FunctionRef (getDecl: FuncDecl) (getExplosionLevel: ExplosionKind) (getUncurryLevel: nat)

text \<open>
  Failed assertions, failed \<^verbatim>\<open>cast<>\<close>s and \<^verbatim>\<open>llvm_unreachable\<close> abort the compiler; the
  model returns them as values. The model is of a build with assertions enabled.
\<close>

datatype error = AssertionFailed | CastFailed | Unreachable

section \<open>Emitted constants, values and instructions\<close>

datatype LLVMType =
    Int8PtrTy | Int16Ty | Int32Ty | IntPtrTy | SizeTy | MetadataKindTy
  | TypeMetadataPtrTy | TypeMetadataPatternPtrTy | WitnessTablePtrTy | ObjCClassPtrTy
  | FunctionPtrTy | VoidTy
  | PointerTo LLVMType
  | ArrayTy LLVMType nat
  | StructTy "LLVMType list"

datatype MetadataKind = KindClass | KindStruct | KindEnum | KindExistential

datatype FillOp = FillOp (FromIndex: nat) (ToIndex: nat)

text \<open>
  The constants a metadata record is made of. Addresses of global objects are symbolic;
  \<open>NullField\<close> is the \<^verbatim>\<open>nullptr\<close> that reserves a field which is filled in later, and
  \<open>FillFunction\<close> is the function \<^verbatim>\<open>emitFillFunction\<close> emits: its fill operations and, when
  the value witness table is dependent, the indices \<^verbatim>\<open>DependentVWTPoint\<close> and
  \<^verbatim>\<open>AddressPoint\<close> its tail works on.
\<close>

datatype Constant =
    NullField
  | ConstantInt LLVMType nat
  | ConstantPointerNull LLVMType
  | ConstantArray LLVMType "Constant list"
  | MetaclassObjectAsInt NominalTypeDecl
  | AddrOfValueWitnessTable CanType
  | AddrOfDestructor NominalTypeDecl
  | AddrOfObjCClass NominalTypeDecl
  | AddrOfSwiftRootClass
  | AddrOfTypeMetadata CanType bool bool
  | ObjCEmptyCachePtr
  | ObjCEmptyVTablePtr
  | ClassPrivateDataPlusOne NominalTypeDecl
  | AddrOfFunction FunctionRef
  | MetadataKindConstant MetadataKind
  | EmittedValueWitnessTable NominalTypeDecl
  | EmptyTupleMetadataAddressPoint
  | GlobalString string
  | FillFunction "FillOp list" "(nat \<times> nat) option"

datatype Value =
    ConstantValue Constant LLVMType
  | InstResult nat LLVMType
  | UndefValue LLVMType

fun getType :: "Value \<Rightarrow> LLVMType" where
  "getType (ConstantValue c ty) = ty"
| "getType (InstResult n ty) = ty"
| "getType (UndefValue ty) = ty"

datatype RuntimeFn =
    GetObjCClassMetadataFn | GetGenericMetadataFn | GetTupleMetadataFn
  | GetTupleMetadata2Fn | GetTupleMetadata3Fn | GetFunctionMetadataFn
  | GetMetatypeMetadataFn

datatype Instr =
    CallInst RuntimeFn "Value list"
  | AllocaInst LLVMType
  | StructGEPInst Value nat
  | StoreInst Value Value
  | BitCastInst Value LLVMType
  | InBoundsGEPInst Value int
  | LoadInst Value

text \<open>
  One function-generation session: the instructions emitted so far, the features
  reported as unimplemented, and the local type data of the session, for the kind
  \<^verbatim>\<open>LocalTypeData::Metatype\<close>.
\<close>

record IRGenFunction =
  Insts :: "Instr list"
  LocalTypeData :: "(CanType \<times> Value) list"
  UnimplementedFeatures :: "string list"

definition newIRGenFunction :: "(CanType \<times> Value) list \<Rightarrow> IRGenFunction" where
  "newIRGenFunction bound =
     \<lparr> Insts = [], LocalTypeData = bound, UnimplementedFeatures = [] \<rparr>"

text \<open>
  Modelled from the spec: \<^verbatim>\<open>IRGenFunction::tryGetLocalTypeData\<close> is called by
  \<^verbatim>\<open>GenMeta.cpp\<close> and defined in another source file. After the specification's
  LocalReferenceCache it is the lookup in a mapping, owned by one session, from a type to
  a value computed earlier.
\<close>

definition tryGetLocalTypeData :: "IRGenFunction \<Rightarrow> CanType \<Rightarrow> Value option" where
  "tryGetLocalTypeData IGF type = map_of (LocalTypeData IGF) type"

text \<open>
  Modelled from the spec: \<^verbatim>\<open>IRGenFunction::getLocalTypeData\<close>, defined in another source
  file as well. After the specification an archetype resolves to a value already bound
  in the session and is never synthesized; a missing binding is an assertion failure.
\<close>

definition getLocalTypeData :: "IRGenFunction \<Rightarrow> CanType \<Rightarrow> error + Value" where
  "getLocalTypeData IGF type =
     (case tryGetLocalTypeData IGF type of None \<Rightarrow> Inl AssertionFailed | Some v \<Rightarrow> Inr v)"

text \<open>
  The instruction builder: every \<^verbatim>\<open>Create...\<close> appends one instruction and returns its
  result (the builder's constant folding is not modelled).
\<close>

definition emitInst :: "Instr \<Rightarrow> LLVMType \<Rightarrow> IRGenFunction \<Rightarrow> Value \<times> IRGenFunction" where
  "emitInst i ty IGF = (InstResult (length (Insts IGF)) ty, IGF\<lparr>Insts := Insts IGF @ [i]\<rparr>)"

definition unimplemented :: "string \<Rightarrow> IRGenFunction \<Rightarrow> IRGenFunction" where
  "unimplemented message IGF =
     IGF\<lparr>UnimplementedFeatures := UnimplementedFeatures IGF @ [message]\<rparr>"

text \<open>
  The parts of \<^verbatim>\<open>IRGenModule\<close> and of the declaration model that \<^verbatim>\<open>GenMeta.cpp\<close> calls
  and other source files define (\<^verbatim>\<open>GenPoly\<close>, \<^verbatim>\<open>GenProto\<close>, the type-info and
  value-witness emitters) are parameters: the pointer size, whether Objective-C
  interoperation is on, the abstraction analysis, the type of the parent context of a
  declaration, whether the value witness table of a generic value type depends on its
  parameters and the fields of its pattern, the fixed size and alignment of an opaque
  type, and the witness tables emitted for a substitution.
\<close>

record IRGenModule =
  getPointerSize :: nat
  ObjCInterop :: bool
  requiresIndirectResult :: "CanType \<Rightarrow> ExplosionKind \<Rightarrow> bool"
  differsByAbstractionInExplosion :: "CanType \<Rightarrow> CanType \<Rightarrow> ExplosionKind \<Rightarrow> bool"
  differsByAbstractionInMemory :: "CanType \<Rightarrow> CanType \<Rightarrow> bool"
  parentTypeOf :: "NominalTypeDecl \<Rightarrow> CanType"
  hasDependentValueWitnessTable :: "NominalTypeDecl \<Rightarrow> bool"
  dependentValueWitnessTablePattern :: "NominalTypeDecl \<Rightarrow> Constant list"
  fixedSizeAndAlignment :: "CanType \<Rightarrow> (nat \<times> nat) option"
  emitWitnessTableRefs :: "CanType \<Rightarrow> IRGenFunction \<Rightarrow> Value list \<times> IRGenFunction"

section \<open>Override compatibility\<close>

fun getClassOrBoundGenericClass :: "CanType \<Rightarrow> NominalTypeDecl option" where
  "getClassOrBoundGenericClass (NominalType d) = (if declKind d = Class then Some d else None)"
| "getClassOrBoundGenericClass (BoundGenericType d args) =
     (if declKind d = Class then Some d else None)"
| "getClassOrBoundGenericClass _ = None"

definition visitType :: "IRGenModule \<Rightarrow> ExplosionKind \<Rightarrow> bool \<Rightarrow> CanType \<Rightarrow> CanType \<Rightarrow> bool" where
  "visitType IGM explosionLevel asExplosion overridden override =
     (if asExplosion
      then differsByAbstractionInExplosion IGM overridden override explosionLevel
      else differsByAbstractionInMemory IGM overridden override)"

text \<open>
  \<^verbatim>\<open>IsIncompatibleOverride::visit\<close>: the dispatch of \<^verbatim>\<open>CanTypeVisitor\<close> on the kind of the
  overridden type, with the loop of \<^verbatim>\<open>visitTupleType\<close> as \<open>visitTupleElements\<close>.
\<close>

fun IsIncompatibleOverride_visit ::
    "IRGenModule \<Rightarrow> ExplosionKind \<Rightarrow> bool \<Rightarrow> CanType \<Rightarrow> CanType \<Rightarrow> error + bool"
  and visitTupleElements ::
    "IRGenModule \<Rightarrow> ExplosionKind \<Rightarrow> bool \<Rightarrow> (string \<times> CanType) list \<Rightarrow>
       (string \<times> CanType) list \<Rightarrow> error + bool" where
  "IsIncompatibleOverride_visit IGM lvl asx overridden override =
     (if override = overridden then Inr False
      else case overridden of
        NominalType d \<Rightarrow>
          (if declKind d = Class
           then (if getClassOrBoundGenericClass override = None then Inl AssertionFailed
                 else Inr False)
           else Inr (visitType IGM lvl asx overridden override))
      | BoundGenericType d args \<Rightarrow>
          (if declKind d = Class
           then (if getClassOrBoundGenericClass override = None then Inl AssertionFailed
                 else Inr False)
           else Inr (visitType IGM lvl asx overridden override))
      | TupleType elts \<Rightarrow>
          (case override of
             TupleType oelts \<Rightarrow>
               (if length elts \<noteq> length oelts then Inl AssertionFailed
                else visitTupleElements IGM lvl asx elts oelts)
           | _ \<Rightarrow> Inl CastFailed)
      | _ \<Rightarrow> Inr (visitType IGM lvl asx overridden override))"
| "visitTupleElements IGM lvl asx [] oelts = Inr False"
| "visitTupleElements IGM lvl asx (e # elts) [] = Inl AssertionFailed"
| "visitTupleElements IGM lvl asx (e # elts) (oe # oelts) =
     (case IsIncompatibleOverride_visit IGM lvl asx (snd e) (snd oe) of
        Inl err \<Rightarrow> Inl err
      | Inr True \<Rightarrow> Inr True
      | Inr False \<Rightarrow> visitTupleElements IGM lvl asx elts oelts)"

definition isIncompatibleOverrideArgument ::
    "IRGenModule \<Rightarrow> CanType \<Rightarrow> CanType \<Rightarrow> ExplosionKind \<Rightarrow> error + bool" where
  "isIncompatibleOverrideArgument IGM overrideTy overriddenTy explosionLevel =
     IsIncompatibleOverride_visit IGM explosionLevel True overriddenTy overrideTy"

definition isIncompatibleOverrideResult ::
    "IRGenModule \<Rightarrow> CanType \<Rightarrow> CanType \<Rightarrow> ExplosionKind \<Rightarrow> error + bool" where
  "isIncompatibleOverrideResult IGM overrideTy overriddenTy explosionLevel =
     (if overrideTy = overriddenTy then Inr False
      else if \<not> requiresIndirectResult IGM overriddenTy explosionLevel then
        (if requiresIndirectResult IGM overrideTy explosionLevel then Inl AssertionFailed
         else IsIncompatibleOverride_visit IGM explosionLevel True overriddenTy overrideTy)
      else if \<not> requiresIndirectResult IGM overrideTy explosionLevel then Inr True
      else IsIncompatibleOverride_visit IGM explosionLevel False overriddenTy overrideTy)"

fun asAnyFunctionType :: "CanType \<Rightarrow> (CanType \<times> CanType) option" where
  "asAnyFunctionType (FunctionType i r) = Some (i, r)"
| "asAnyFunctionType (PolymorphicFunctionType i r) = Some (i, r)"
| "asAnyFunctionType (GenericFunctionType i r) = Some (i, r)"
| "asAnyFunctionType _ = None"

text \<open>
  The loop of \<^verbatim>\<open>isCompatibleOverride\<close>, \<^verbatim>\<open>for (++uncurryLevel; uncurryLevel; --uncurryLevel)\<close>,
  with the counter after the increment as the first argument; at zero the loop is left
  and the function returns \<^verbatim>\<open>isIncompatibleOverrideResult(...)\<close>, as the source has it. The
  level is an \<^verbatim>\<open>unsigned\<close>, so the increment wraps around at \<open>2 ^ 32\<close>.
\<close>

fun isCompatibleOverride_loop ::
    "nat \<Rightarrow> IRGenModule \<Rightarrow> CanType \<Rightarrow> CanType \<Rightarrow> ExplosionKind \<Rightarrow> error + bool" where
  "isCompatibleOverride_loop 0 IGM overrideTy overriddenTy explosionLevel =
     isIncompatibleOverrideResult IGM overrideTy overriddenTy explosionLevel"
| "isCompatibleOverride_loop (Suc n) IGM overrideTy overriddenTy explosionLevel =
     (if overrideTy = overriddenTy then Inr True
      else case asAnyFunctionType overrideTy of
        None \<Rightarrow> Inl CastFailed
      | Some (overrideIn, overrideRes) \<Rightarrow>
         (case asAnyFunctionType overriddenTy of
            None \<Rightarrow> Inl CastFailed
          | Some (overriddenIn, overriddenRes) \<Rightarrow>
             (case isIncompatibleOverrideArgument IGM overrideIn overriddenIn explosionLevel of
                Inl err \<Rightarrow> Inl err
              | Inr True \<Rightarrow> Inr False
              | Inr False \<Rightarrow>
                  isCompatibleOverride_loop n IGM overrideRes overriddenRes explosionLevel)))"

definition isCompatibleOverride ::
    "IRGenModule \<Rightarrow> FuncDecl \<Rightarrow> FuncDecl \<Rightarrow> ExplosionKind \<Rightarrow> nat \<Rightarrow> error + bool" where
  "isCompatibleOverride IGM override overridden explosionLevel uncurryLevel =
     isCompatibleOverride_loop (Suc uncurryLevel mod 2 ^ 32) IGM (fnType override)
       (fnType overridden) explosionLevel"

definition hasKnownSwiftImplementation :: "NominalTypeDecl \<Rightarrow> bool" where
  "hasKnownSwiftImplementation theClass = (\<not> hasClangNode theClass)"

definition hasKnownSwiftMetadata :: "NominalTypeDecl \<Rightarrow> bool" where
  "hasKnownSwiftMetadata theClass = hasKnownSwiftImplementation theClass"

definition hasKnownVTableEntry :: "FuncDecl \<Rightarrow> error + bool" where
  "hasKnownVTableEntry theMethod =
     (case fnDeclContext theMethod of
        OtherContext \<Rightarrow> (if fnHasClangNode theMethod then Inr False else Inl AssertionFailed)
      | NominalContext theClass \<Rightarrow>
          (if declKind theClass = Class then Inr (hasKnownSwiftImplementation theClass)
           else if fnHasClangNode theMethod then Inr False else Inl AssertionFailed))"

text \<open>
  The body of the \<^verbatim>\<open>do ... while\<close> of \<^verbatim>\<open>doesMethodRequireOverrideEntry\<close> at a non-null
  \<^verbatim>\<open>overridden\<close>; the assertion at the head of the loop can only fail on entry.
\<close>

fun overrideEntryWalk ::
    "IRGenModule \<Rightarrow> FuncDecl \<Rightarrow> ExplosionKind \<Rightarrow> nat \<Rightarrow> FuncDecl \<Rightarrow> error + bool" where
  "overrideEntryWalk IGM fn explosionLevel uncurryLevel
       (FuncDecl name ctx clang ty next) =
     (case hasKnownVTableEntry (FuncDecl name ctx clang ty next) of
        Inl err \<Rightarrow> Inl err
      | Inr False \<Rightarrow> Inr True
      | Inr True \<Rightarrow>
         (case isCompatibleOverride IGM fn (FuncDecl name ctx clang ty next)
                 explosionLevel uncurryLevel of
            Inl err \<Rightarrow> Inl err
          | Inr True \<Rightarrow> Inr False
          | Inr False \<Rightarrow>
             (case next of
                None \<Rightarrow> Inr True
              | Some overridden' \<Rightarrow>
                  overrideEntryWalk IGM fn explosionLevel uncurryLevel overridden')))"

definition doesMethodRequireOverrideEntry ::
    "IRGenModule \<Rightarrow> FuncDecl \<Rightarrow> ExplosionKind \<Rightarrow> nat \<Rightarrow> error + bool" where
  "doesMethodRequireOverrideEntry IGM fn explosionLevel uncurryLevel =
     (case getOverriddenDecl fn of
        None \<Rightarrow> Inl AssertionFailed
      | Some overridden \<Rightarrow> overrideEntryWalk IGM fn explosionLevel uncurryLevel overridden)"

text \<open>
  The declarations a method overrides, transitively, closest first: the order in which
  the walk of \<^verbatim>\<open>doesMethodRequireOverrideEntry\<close> meets them.
\<close>

fun overriddenDecls :: "FuncDecl \<Rightarrow> FuncDecl list" where
  "overriddenDecls (FuncDecl name ctx clang ty None) = []"
| "overriddenDecls (FuncDecl name ctx clang ty (Some overridden)) =
     overridden # overriddenDecls overridden"

section \<open>Class metadata: final overriders\<close>

text \<open>
  The body of the member loop of \<^verbatim>\<open>computeFinalOverriders\<close> for a member that is a
  function. \<^verbatim>\<open>FinalOverriders[fn]\<close> makes the entry if it is missing, and
  \<^verbatim>\<open>DenseMap::insert\<close> leaves an entry that is already there as it is.
\<close>

definition noteFinalOverrider ::
    "(FuncDecl \<rightharpoonup> FuncDecl) \<Rightarrow> FuncDecl \<Rightarrow> (FuncDecl \<rightharpoonup> FuncDecl)" where
  "noteFinalOverrider FinalOverriders fn =
     (let finalOverrider = (case FinalOverriders fn of None \<Rightarrow> fn | Some g \<Rightarrow> g);
          FinalOverriders' = FinalOverriders(fn \<mapsto> finalOverrider)
      in case getOverriddenDecl fn of
           None \<Rightarrow> FinalOverriders'
         | Some overridden \<Rightarrow>
             (case FinalOverriders' overridden of
                None \<Rightarrow> FinalOverriders'(overridden \<mapsto> finalOverrider)
              | Some g \<Rightarrow> FinalOverriders'))"

fun noteMembers :: "(FuncDecl \<rightharpoonup> FuncDecl) \<Rightarrow> Member list \<Rightarrow> (FuncDecl \<rightharpoonup> FuncDecl)" where
  "noteMembers FinalOverriders [] = FinalOverriders"
| "noteMembers FinalOverriders (FuncMember fn # members) =
     noteMembers (noteFinalOverrider FinalOverriders fn) members"
| "noteMembers FinalOverriders (member # members) = noteMembers FinalOverriders members"

text \<open>The \<^verbatim>\<open>do ... while\<close> up the class hierarchy, from the target class.\<close>

fun computeFinalOverriders_from ::
    "(FuncDecl \<rightharpoonup> FuncDecl) \<Rightarrow> ClassDecl \<Rightarrow> (FuncDecl \<rightharpoonup> FuncDecl)" where
  "computeFinalOverriders_from FinalOverriders (ClassDecl d objc members super) =
     (let FinalOverriders' = noteMembers FinalOverriders members
      in case super of
           None \<Rightarrow> FinalOverriders'
         | Some (ty, cls) \<Rightarrow> computeFinalOverriders_from FinalOverriders' cls)"

definition computeFinalOverriders :: "ClassDecl \<Rightarrow> (FuncDecl \<rightharpoonup> FuncDecl)" where
  "computeFinalOverriders theClass = computeFinalOverriders_from Map.empty theClass"

section \<open>Metadata builders\<close>

text \<open>
  The layout classes (\<^verbatim>\<open>ClassMetadataLayout\<close>, \<^verbatim>\<open>StructMetadataLayout\<close>,
  \<^verbatim>\<open>EnumMetadataLayout\<close>) are headers that \<^verbatim>\<open>GenMeta.cpp\<close> includes. Their \<^verbatim>\<open>layout()\<close> calls the
  hooks of the most-derived class in an order fixed per kind of type; here a traversal is
  the list of the hooks it calls, and every result below holds for all traversals. A hook
  of a class layout names the class it is called for; a hook of a struct or enum layout
  does not (\<open>None\<close>).
\<close>

datatype LayoutHook =
    AddMetadataFlags
  | AddValueWitnessTable
  | NoteAddressPoint
  | AddNominalTypeDescriptor
  | AddDestructorFunction
  | AddParentMetadataRef "NominalTypeDecl option"
  | AddSuperClass
  | AddClassCacheData
  | AddClassDataPointer
  | AddFieldOffset string
  | AddMethod FunctionRef
  | AddGenericArgument string "NominalTypeDecl option"
  | AddGenericWitnessTable string string "NominalTypeDecl option"

datatype BuilderTarget = ClassTarget ClassDecl | ValueTypeTarget NominalTypeDecl

text \<open>
  The state of a builder. \<open>Target\<close> selects the base (\<^verbatim>\<open>ClassMetadataBuilderBase\<close>,
  \<^verbatim>\<open>StructMetadataBuilderBase\<close> or \<^verbatim>\<open>EnumMetadataBuilderBase\<close>) and \<open>IsGeneric\<close> tells
  whether \<^verbatim>\<open>GenericMetadataBuilderBase\<close> wraps it; the last five fields are the
  adapter's. The counters are \<^verbatim>\<open>unsigned\<close> in the source and count fields of one
  record, far below \<open>2 ^ 32\<close>; they are naturals here.
\<close>

record MetadataBuilder =
  Target :: BuilderTarget
  IsGeneric :: bool
  Fields :: "Constant list"
  FinalOverriders :: "FuncDecl \<rightharpoonup> FuncDecl"
  WitnessTableOffsets :: "(FunctionRef \<times> nat) list"
  NumGenericWitnesses :: nat
  AddressPoint :: nat
  FillOps :: "FillOp list"
  HasDependentVWT :: bool
  DependentVWTPoint :: nat

definition newClassMetadataBuilder :: "bool \<Rightarrow> ClassDecl \<Rightarrow> MetadataBuilder" where
  "newClassMetadataBuilder generic theClass =
     \<lparr> Target = ClassTarget theClass, IsGeneric = generic, Fields = [],
       FinalOverriders = computeFinalOverriders theClass, WitnessTableOffsets = [],
       NumGenericWitnesses = 0, AddressPoint = 0, FillOps = [],
       HasDependentVWT = False, DependentVWTPoint = 0 \<rparr>"

definition newValueTypeMetadataBuilder :: "bool \<Rightarrow> NominalTypeDecl \<Rightarrow> MetadataBuilder" where
  "newValueTypeMetadataBuilder generic theDecl =
     \<lparr> Target = ValueTypeTarget theDecl, IsGeneric = generic, Fields = [],
       FinalOverriders = Map.empty, WitnessTableOffsets = [],
       NumGenericWitnesses = 0, AddressPoint = 0, FillOps = [],
       HasDependentVWT = False, DependentVWTPoint = 0 \<rparr>"

definition TemplateHeaderFieldCount :: nat where
  "TemplateHeaderFieldCount = 5"

text \<open>
  \<^verbatim>\<open>getNextIndex\<close>: the number of fields, less the preallocated header in the adapter.
\<close>

definition getNextIndex :: "MetadataBuilder \<Rightarrow> nat" where
  "getNextIndex b =
     (if IsGeneric b then length (Fields b) - TemplateHeaderFieldCount else length (Fields b))"

definition push_back :: "Constant list \<Rightarrow> MetadataBuilder \<Rightarrow> MetadataBuilder" where
  "push_back cs b = b\<lparr>Fields := Fields b @ cs\<rparr>"

definition isMetadataIndirect :: "NominalTypeDecl \<Rightarrow> bool" where
  "isMetadataIndirect theDecl = False"

fun tryEmitConstantHeapMetadataRef :: "CanType \<Rightarrow> error + Constant option" where
  "tryEmitConstantHeapMetadataRef (BoundGenericType d args) = Inr None"
| "tryEmitConstantHeapMetadataRef (NominalType theDecl) =
     (if hasGenericParamsOfContext theDecl then Inr None
      else if declKind theDecl = Class \<and> \<not> hasKnownSwiftMetadata theDecl
        then Inr (Some (AddrOfObjCClass theDecl))
      else if isMetadataIndirect theDecl then Inr None
      else Inr (Some (AddrOfTypeMetadata (NominalType theDecl) False False)))"
| "tryEmitConstantHeapMetadataRef type = Inl AssertionFailed"

definition addReferenceToType :: "CanType \<Rightarrow> MetadataBuilder \<Rightarrow> error + MetadataBuilder" where
  "addReferenceToType type b =
     (case tryEmitConstantHeapMetadataRef type of
        Inl err \<Rightarrow> Inl err
      | Inr (Some metadata) \<Rightarrow> Inr (push_back [metadata] b)
      | Inr None \<Rightarrow> Inr (push_back [ConstantPointerNull TypeMetadataPtrTy] b))"

text \<open>
  \<^verbatim>\<open>ClassMetadataBuilderBase::addMethod\<close>: the witness-table offset of a method of the
  target class is initialized with the byte offset of the new field, and the field is the
  function of the final overrider.
\<close>

definition addMethod ::
    "IRGenModule \<Rightarrow> ClassDecl \<Rightarrow> FunctionRef \<Rightarrow> MetadataBuilder \<Rightarrow> error + MetadataBuilder" where
  "addMethod IGM theClass fn b =
     (let b' = (if fnDeclContext (getDecl fn) = NominalContext (classNominal theClass)
                then b\<lparr>WitnessTableOffsets :=
                        WitnessTableOffsets b @ [(fn, length (Fields b) * getPointerSize IGM)]\<rparr>
                else b)
      in case FinalOverriders b' (getDecl fn) of
           None \<Rightarrow> Inl AssertionFailed
         | Some finalOverrider \<Rightarrow>
             Inr (push_back
                    [AddrOfFunction (FunctionRef finalOverrider (getExplosionLevel fn)
                                       (getUncurryLevel fn))] b'))"

text \<open>The hooks of \<^verbatim>\<open>ClassMetadataBuilderBase\<close>.\<close>

fun classBuilderHook ::
    "IRGenModule \<Rightarrow> ClassDecl \<Rightarrow> LayoutHook \<Rightarrow> MetadataBuilder \<Rightarrow> error + MetadataBuilder" where
  "classBuilderHook IGM theClass AddMetadataFlags b =
     Inr (push_back [MetaclassObjectAsInt (classNominal theClass)] b)"
| "classBuilderHook IGM theClass AddValueWitnessTable b =
     Inr (push_back [AddrOfValueWitnessTable
            (if isObjC theClass then BuiltinObjCPointerType else BuiltinObjectPointerType)] b)"
| "classBuilderHook IGM theClass AddDestructorFunction b =
     Inr (push_back [AddrOfDestructor (classNominal theClass)] b)"
| "classBuilderHook IGM theClass (AddParentMetadataRef (Some forClass)) b =
     addReferenceToType (parentTypeOf IGM forClass) b"
| "classBuilderHook IGM theClass AddSuperClass b =
     (case getSuperclass theClass of
        None \<Rightarrow>
          (if \<not> ObjCInterop IGM then Inr (push_back [ConstantPointerNull TypeMetadataPtrTy] b)
           else Inr (push_back [AddrOfSwiftRootClass] b))
      | Some (superclassType, cls) \<Rightarrow> addReferenceToType superclassType b)"
| "classBuilderHook IGM theClass AddClassCacheData b =
     Inr (push_back [ObjCEmptyCachePtr, ObjCEmptyVTablePtr] b)"
| "classBuilderHook IGM theClass AddClassDataPointer b =
     Inr (push_back [ClassPrivateDataPlusOne (classNominal theClass)] b)"
| "classBuilderHook IGM theClass (AddFieldOffset var) b =
     Inr (push_back [ConstantInt IntPtrTy 0] b)"
| "classBuilderHook IGM theClass (AddMethod fn) b = addMethod IGM theClass fn b"
| "classBuilderHook IGM theClass (AddGenericArgument archetype (Some forClass)) b =
     Inr (push_back [ConstantPointerNull TypeMetadataPtrTy] b)"
| "classBuilderHook IGM theClass (AddGenericWitnessTable archetype protocol (Some forClass)) b =
     Inr (push_back [ConstantPointerNull WitnessTablePtrTy] b)"
| "classBuilderHook IGM theClass NoteAddressPoint b = Inr b"
| "classBuilderHook IGM theClass hook b = Inl Unreachable"

text \<open>
  The hooks of \<^verbatim>\<open>StructMetadataBuilderBase\<close> and \<^verbatim>\<open>EnumMetadataBuilderBase\<close>, with
  \<^verbatim>\<open>addValueWitnessTable\<close> of the plain and of the generic builder
  (\<^verbatim>\<open>addValueWitnessTableSlotForGenericValueType\<close>).
\<close>

fun valueTypeBuilderHook ::
    "IRGenModule \<Rightarrow> NominalTypeDecl \<Rightarrow> LayoutHook \<Rightarrow> MetadataBuilder \<Rightarrow> error + MetadataBuilder" where
  "valueTypeBuilderHook IGM theDecl AddMetadataFlags b =
     (case declKind theDecl of
        Struct \<Rightarrow> Inr (push_back [MetadataKindConstant KindStruct] b)
      | Enum \<Rightarrow> Inr (push_back [MetadataKindConstant KindEnum] b)
      | _ \<Rightarrow> Inl Unreachable)"
| "valueTypeBuilderHook IGM theDecl AddNominalTypeDescriptor b =
     Inr (push_back [ConstantPointerNull Int8PtrTy] b)"
| "valueTypeBuilderHook IGM theDecl (AddParentMetadataRef None) b =
     Inr (push_back [ConstantPointerNull TypeMetadataPtrTy] b)"
| "valueTypeBuilderHook IGM theDecl (AddGenericArgument archetype None) b =
     Inr (push_back [ConstantPointerNull TypeMetadataPtrTy] b)"
| "valueTypeBuilderHook IGM theDecl (AddGenericWitnessTable archetype protocol None) b =
     Inr (push_back [ConstantPointerNull WitnessTablePtrTy] b)"
| "valueTypeBuilderHook IGM theDecl AddValueWitnessTable b =
     (if IsGeneric b then
        (let dependent = hasDependentValueWitnessTable IGM theDecl;
             b' = (if dependent then push_back [ConstantPointerNull Int8PtrTy] b
                   else push_back [EmittedValueWitnessTable theDecl] b)
         in Inr (b'\<lparr>HasDependentVWT := dependent\<rparr>))
      else Inr (push_back [EmittedValueWitnessTable theDecl] b))"
| "valueTypeBuilderHook IGM theDecl NoteAddressPoint b = Inr b"
| "valueTypeBuilderHook IGM theDecl hook b = Inl Unreachable"

definition baseHook :: "IRGenModule \<Rightarrow> LayoutHook \<Rightarrow> MetadataBuilder \<Rightarrow> error + MetadataBuilder" where
  "baseHook IGM hook b =
     (case Target b of
        ClassTarget theClass \<Rightarrow> classBuilderHook IGM theClass hook b
      | ValueTypeTarget theDecl \<Rightarrow> valueTypeBuilderHook IGM theDecl hook b)"

text \<open>
  The hooks of the most-derived class: \<^verbatim>\<open>GenericMetadataBuilderBase\<close> overrides
  \<^verbatim>\<open>noteAddressPoint\<close>, \<^verbatim>\<open>addGenericArgument\<close> and \<^verbatim>\<open>addGenericWitnessTable\<close> and then calls
  the base.
\<close>

definition recordFillOp :: "MetadataBuilder \<Rightarrow> MetadataBuilder" where
  "recordFillOp b =
     b\<lparr>FillOps := FillOps b @ [FillOp (NumGenericWitnesses b) (getNextIndex b)],
       NumGenericWitnesses := Suc (NumGenericWitnesses b)\<rparr>"

fun isFillHook :: "LayoutHook \<Rightarrow> bool" where
  "isFillHook (AddGenericArgument archetype forClass) = True"
| "isFillHook (AddGenericWitnessTable archetype protocol forClass) = True"
| "isFillHook hook = False"

definition builderHook :: "IRGenModule \<Rightarrow> LayoutHook \<Rightarrow> MetadataBuilder \<Rightarrow> error + MetadataBuilder" where
  "builderHook IGM hook b =
     (if IsGeneric b then
        (if hook = NoteAddressPoint then baseHook IGM hook (b\<lparr>AddressPoint := getNextIndex b\<rparr>)
         else if isFillHook hook then baseHook IGM hook (recordFillOp b)
         else baseHook IGM hook b)
      else baseHook IGM hook b)"

text \<open>\<^verbatim>\<open>super::layout()\<close> on a traversal.\<close>

fun superLayout ::
    "IRGenModule \<Rightarrow> LayoutHook list \<Rightarrow> MetadataBuilder \<Rightarrow> error + MetadataBuilder" where
  "superLayout IGM [] b = Inr b"
| "superLayout IGM (hook # hooks) b =
     (case builderHook IGM hook b of
        Inl err \<Rightarrow> Inl err
      | Inr b' \<Rightarrow> superLayout IGM hooks b')"

text \<open>
  \<^verbatim>\<open>ConstantInt::get(type, value)\<close> keeps the low bits of the value that the integer type
  has.
\<close>

fun intBitWidth :: "IRGenModule \<Rightarrow> LLVMType \<Rightarrow> nat" where
  "intBitWidth IGM Int16Ty = 16"
| "intBitWidth IGM Int32Ty = 32"
| "intBitWidth IGM ty = 8 * getPointerSize IGM"

definition ConstantInt_get :: "IRGenModule \<Rightarrow> LLVMType \<Rightarrow> nat \<Rightarrow> Constant" where
  "ConstantInt_get IGM ty v = ConstantInt ty (v mod 2 ^ intBitWidth IGM ty)"

definition getPrivateDataInit :: Constant where
  "getPrivateDataInit = ConstantArray Int8PtrTy (replicate 8 (ConstantPointerNull Int8PtrTy))"

definition addDependentValueWitnessTablePattern ::
    "IRGenModule \<Rightarrow> MetadataBuilder \<Rightarrow> error + MetadataBuilder" where
  "addDependentValueWitnessTablePattern IGM b =
     (case Target b of
        ClassTarget theClass \<Rightarrow> Inl Unreachable
      | ValueTypeTarget theDecl \<Rightarrow>
          Inr (push_back (dependentValueWitnessTablePattern IGM theDecl) b))"

definition emitFillFunction :: "MetadataBuilder \<Rightarrow> error + Constant" where
  "emitFillFunction b =
     (if HasDependentVWT b then
        (if AddressPoint b \<ge> 1 \<and> DependentVWTPoint b \<noteq> 0
         then (case Target b of
                 ClassTarget theClass \<Rightarrow> Inl Unreachable
               | ValueTypeTarget theDecl \<Rightarrow>
                   Inr (FillFunction (FillOps b) (Some (DependentVWTPoint b, AddressPoint b))))
         else Inl AssertionFailed)
      else Inr (FillFunction (FillOps b) None))"

text \<open>
  \<^verbatim>\<open>GenericMetadataBuilderBase::layout\<close>, in its steps: room for the header, the template
  data, the dependent value witness table, and the five header fields.
\<close>

definition reserveHeader :: "MetadataBuilder \<Rightarrow> MetadataBuilder" where
  "reserveHeader b = push_back (replicate TemplateHeaderFieldCount NullField) b"

definition layoutDependentVWT :: "IRGenModule \<Rightarrow> MetadataBuilder \<Rightarrow> error + MetadataBuilder" where
  "layoutDependentVWT IGM b =
     (if HasDependentVWT b
      then addDependentValueWitnessTablePattern IGM (b\<lparr>DependentVWTPoint := getNextIndex b\<rparr>)
      else Inr b)"

definition fillInHeader :: "IRGenModule \<Rightarrow> MetadataBuilder \<Rightarrow> error + MetadataBuilder" where
  "fillInHeader IGM b =
     (case emitFillFunction b of
        Inl err \<Rightarrow> Inl err
      | Inr fillFunction \<Rightarrow>
         (let b0 = b\<lparr>Fields := (Fields b)[0 := fillFunction]\<rparr>;
              metadataSize = getNextIndex b0 * getPointerSize IGM;
              b1 = b0\<lparr>Fields := (Fields b0)[1 := ConstantInt_get IGM Int32Ty metadataSize]\<rparr>;
              b2 = b1\<lparr>Fields := (Fields b1)[2 :=
                       ConstantInt_get IGM Int16Ty (NumGenericWitnesses b1)]\<rparr>
          in if AddressPoint b2 = 0 then Inl AssertionFailed
             else
               (let addressPoint = AddressPoint b2 * getPointerSize IGM;
                    b3 = b2\<lparr>Fields := (Fields b2)[3 :=
                             ConstantInt_get IGM Int16Ty addressPoint]\<rparr>
                in Inr (b3\<lparr>Fields := (Fields b3)[4 := getPrivateDataInit]\<rparr>))))"

definition layout :: "IRGenModule \<Rightarrow> LayoutHook list \<Rightarrow> MetadataBuilder \<Rightarrow> error + MetadataBuilder" where
  "layout IGM hooks b =
     (if IsGeneric b then
        (case superLayout IGM hooks (reserveHeader b) of
           Inl err \<Rightarrow> Inl err
         | Inr b' \<Rightarrow>
            (case layoutDependentVWT IGM b' of
               Inl err \<Rightarrow> Inl err
             | Inr b'' \<Rightarrow> fillInHeader IGM b''))
      else superLayout IGM hooks b)"

text \<open>
  The store size of a constant in bytes, for a pointer size: 16- and 32-bit integers take
  2 and 4 bytes, an array the sizes of its elements, everything else is a pointer or a
  pointer-sized integer.
\<close>

fun storeSize :: "nat \<Rightarrow> Constant \<Rightarrow> nat" where
  "storeSize pointerSize (ConstantInt Int16Ty v) = 2"
| "storeSize pointerSize (ConstantInt Int32Ty v) = 4"
| "storeSize pointerSize (ConstantArray ty elts) = sum_list (map (storeSize pointerSize) elts)"
| "storeSize pointerSize c = pointerSize"

section \<open>Field locators\<close>

text \<open>
  \<^verbatim>\<open>MetadataSearcher\<close> over a scanner (\<^verbatim>\<open>ClassMetadataScanner\<close>, \<^verbatim>\<open>StructMetadataScanner\<close>,
  \<^verbatim>\<open>EnumMetadataScanner\<close>). The scanners are defined in the layout headers: the amount
  by which a scanner's own hook advances \<^verbatim>\<open>NextIndex\<close> is the parameter \<open>scan\<close>, and the
  index starts at zero. The indices are \<^verbatim>\<open>unsigned\<close>, with \<^verbatim>\<open>~0U\<close> for "not set".
\<close>

definition InvalidIndex :: "32 word" where
  "InvalidIndex = - 1"

record MetadataSearcher =
  NextIndex :: "32 word"
  TargetIndex :: "32 word"
  SearcherAddressPoint :: "32 word"

definition newMetadataSearcher :: MetadataSearcher where
  "newMetadataSearcher =
     \<lparr> NextIndex = 0, TargetIndex = InvalidIndex, SearcherAddressPoint = InvalidIndex \<rparr>"

text \<open>The searchers of the source, each with what its constructor stores.\<close>

datatype Searcher =
    FindClassParentIndex NominalTypeDecl
  | FindClassArgumentIndex NominalTypeDecl string
  | FindValueTypeArgumentIndex string
  | FindClassWitnessTableIndex NominalTypeDecl string string
  | FindValueTypeWitnessTableIndex string string
  | FindClassFieldOffset NominalTypeDecl string
  | FindClassMethodIndex FunctionRef

text \<open>
  The one hook a searcher overrides, with the test it makes there: \<open>Some matches\<close> when
  the searcher overrides the hook, \<open>None\<close> when the hook is the scanner's.
\<close>

fun targetTest :: "Searcher \<Rightarrow> LayoutHook \<Rightarrow> bool option" where
  "targetTest (FindClassParentIndex theClass) (AddParentMetadataRef forClass) =
     Some (forClass = Some theClass)"
| "targetTest (FindClassArgumentIndex theClass targetArchetype)
       (AddGenericArgument argument forClass) =
     Some (forClass = Some theClass \<and> argument = targetArchetype)"
| "targetTest (FindValueTypeArgumentIndex targetArchetype)
       (AddGenericArgument argument forClass) =
     Some (argument = targetArchetype)"
| "targetTest (FindClassWitnessTableIndex theClass targetArchetype targetProtocol)
       (AddGenericWitnessTable argument protocol forClass) =
     Some (forClass = Some theClass \<and> argument = targetArchetype \<and> protocol = targetProtocol)"
| "targetTest (FindValueTypeWitnessTableIndex targetArchetype targetProtocol)
       (AddGenericWitnessTable argument protocol forClass) =
     Some (argument = targetArchetype \<and> protocol = targetProtocol)"
| "targetTest (FindClassFieldOffset theClass targetField) (AddFieldOffset field) =
     Some (field = targetField)"
| "targetTest (FindClassMethodIndex targetMethod) (AddMethod fn) = Some (targetMethod = fn)"
| "targetTest searcher hook = None"

definition setTargetIndex :: "MetadataSearcher \<Rightarrow> error + MetadataSearcher" where
  "setTargetIndex s =
     (if TargetIndex s = InvalidIndex then Inr (s\<lparr>TargetIndex := NextIndex s\<rparr>)
      else Inl AssertionFailed)"

definition searcherHook ::
    "(LayoutHook \<Rightarrow> 32 word) \<Rightarrow> Searcher \<Rightarrow> LayoutHook \<Rightarrow> MetadataSearcher
       \<Rightarrow> error + MetadataSearcher" where
  "searcherHook scan searcher hook s =
     (case targetTest searcher hook of
        Some matches \<Rightarrow>
          (case (if matches then setTargetIndex s else Inr s) of
             Inl err \<Rightarrow> Inl err
           | Inr s' \<Rightarrow> Inr (s'\<lparr>NextIndex := NextIndex s' + 1\<rparr>))
      | None \<Rightarrow>
          (if hook = NoteAddressPoint then Inr (s\<lparr>SearcherAddressPoint := NextIndex s\<rparr>)
           else Inr (s\<lparr>NextIndex := NextIndex s + scan hook\<rparr>)))"

fun searcherLayout ::
    "(LayoutHook \<Rightarrow> 32 word) \<Rightarrow> Searcher \<Rightarrow> LayoutHook list \<Rightarrow> MetadataSearcher
       \<Rightarrow> error + MetadataSearcher" where
  "searcherLayout scan searcher [] s = Inr s"
| "searcherLayout scan searcher (hook # hooks) s =
     (case searcherHook scan searcher hook s of
        Inl err \<Rightarrow> Inl err
      | Inr s' \<Rightarrow> searcherLayout scan searcher hooks s')"

text \<open>
  \<^verbatim>\<open>getTargetIndex\<close> on a new searcher. The result is the \<^verbatim>\<open>int\<close>
  \<^verbatim>\<open>(int) TargetIndex - (int) AddressPoint\<close>, as its 32 bits; \<open>sint\<close> reads it.
\<close>

definition getTargetIndex ::
    "(LayoutHook \<Rightarrow> 32 word) \<Rightarrow> Searcher \<Rightarrow> LayoutHook list \<Rightarrow> error + 32 word" where
  "getTargetIndex scan searcher hooks =
     (let s0 = newMetadataSearcher
      in if TargetIndex s0 \<noteq> InvalidIndex then Inl AssertionFailed
         else case searcherLayout scan searcher hooks s0 of
           Inl err \<Rightarrow> Inl err
         | Inr s \<Rightarrow>
             (if TargetIndex s = InvalidIndex then Inl AssertionFailed
              else if SearcherAddressPoint s = InvalidIndex then Inl AssertionFailed
              else Inr (TargetIndex s - SearcherAddressPoint s)))"

text \<open>
  The index a hook is reached at: what the hooks before it advance \<^verbatim>\<open>NextIndex\<close> by.
\<close>

definition advance :: "(LayoutHook \<Rightarrow> 32 word) \<Rightarrow> Searcher \<Rightarrow> LayoutHook \<Rightarrow> 32 word" where
  "advance scan searcher hook =
     (case targetTest searcher hook of
        Some matches \<Rightarrow> 1
      | None \<Rightarrow> (if hook = NoteAddressPoint then 0 else scan hook))"

definition slotAfter :: "(LayoutHook \<Rightarrow> 32 word) \<Rightarrow> Searcher \<Rightarrow> LayoutHook list \<Rightarrow> 32 word" where
  "slotAfter scan searcher hooks = sum_list (map (advance scan searcher) hooks)"

definition isTarget :: "Searcher \<Rightarrow> LayoutHook \<Rightarrow> bool" where
  "isTarget searcher hook = (targetTest searcher hook = Some True)"

section \<open>Loads from metadata\<close>

definition emitLoadFromMetadataAtIndex ::
    "IRGenFunction \<Rightarrow> Value \<Rightarrow> int \<Rightarrow> LLVMType \<Rightarrow> error + (Value \<times> IRGenFunction)" where
  "emitLoadFromMetadataAtIndex IGF metadata index objectTy =
     (if getType metadata \<noteq> TypeMetadataPtrTy then Inl AssertionFailed
      else
        (let (metadata', IGF1) =
               emitInst (BitCastInst metadata (PointerTo objectTy)) (PointerTo objectTy) IGF;
             (slot, IGF2) =
               emitInst (InBoundsGEPInst metadata' index) (PointerTo objectTy) IGF1
         in Inr (emitInst (LoadInst slot) objectTy IGF2)))"

definition emitLoadOfMetadataRefAtIndex ::
    "IRGenFunction \<Rightarrow> Value \<Rightarrow> int \<Rightarrow> error + (Value \<times> IRGenFunction)" where
  "emitLoadOfMetadataRefAtIndex IGF metadata index =
     emitLoadFromMetadataAtIndex IGF metadata index TypeMetadataPtrTy"

text \<open>
  \<^verbatim>\<open>emitParentMetadataRef\<close>. \<open>classLayout\<close> is the traversal of the class layout for a class
  declaration.
\<close>

definition emitParentMetadataRef ::
    "(LayoutHook \<Rightarrow> 32 word) \<Rightarrow> (NominalTypeDecl \<Rightarrow> LayoutHook list) \<Rightarrow> IRGenFunction
       \<Rightarrow> NominalTypeDecl \<Rightarrow> Value \<Rightarrow> error + (Value \<times> IRGenFunction)" where
  "emitParentMetadataRef scan classLayout IGF decl metadata =
     (if \<not> isInTypeContext decl then Inl AssertionFailed
      else case declKind decl of
        Protocol \<Rightarrow> Inl Unreachable
      | Class \<Rightarrow>
          (case getTargetIndex scan (FindClassParentIndex decl) (classLayout decl) of
             Inl err \<Rightarrow> Inl err
           | Inr index \<Rightarrow> emitLoadOfMetadataRefAtIndex IGF metadata (sint index))
      | Enum \<Rightarrow> emitLoadOfMetadataRefAtIndex IGF metadata 2
      | Struct \<Rightarrow> emitLoadOfMetadataRefAtIndex IGF metadata 2)"

section \<open>Metadata references\<close>

definition emitObjCMetadataRef :: "IRGenFunction \<Rightarrow> NominalTypeDecl \<Rightarrow> Value \<times> IRGenFunction" where
  "emitObjCMetadataRef IGF theClass =
     emitInst (CallInst GetObjCClassMetadataFn
                 [ConstantValue (AddrOfObjCClass theClass) ObjCClassPtrTy])
       TypeMetadataPtrTy IGF"

definition getAddrOfTypeMetadata :: "CanType \<Rightarrow> bool \<Rightarrow> bool \<Rightarrow> Value" where
  "getAddrOfTypeMetadata type isIndirect isPattern =
     ConstantValue (AddrOfTypeMetadata type isIndirect isPattern)
       (if isPattern then TypeMetadataPatternPtrTy else TypeMetadataPtrTy)"

definition emitDirectMetadataRef :: "CanType \<Rightarrow> Value" where
  "emitDirectMetadataRef type = getAddrOfTypeMetadata type False False"

definition isPowerOf2 :: "nat \<Rightarrow> bool" where
  "isPowerOf2 n = (\<exists>k<n. n = 2 ^ k)"

definition visitOpaqueType ::
    "IRGenModule \<Rightarrow> CanType \<Rightarrow> IRGenFunction \<Rightarrow> error + (Value \<times> IRGenFunction)" where
  "visitOpaqueType IGM type IGF =
     (case fixedSizeAndAlignment IGM type of
        None \<Rightarrow> Inl CastFailed
      | Some (fixedSize, fixedAlignment) \<Rightarrow>
          (if fixedSize \<noteq> fixedAlignment then Inl AssertionFailed
           else if \<not> isPowerOf2 fixedSize then Inl AssertionFailed
           else Inr (emitDirectMetadataRef (BuiltinIntegerType (8 * fixedSize)), IGF)))"

definition getTupleLabelsString :: "(string \<times> CanType) list \<Rightarrow> Value" where
  "getTupleLabelsString elts =
     (if \<not> list_ex (\<lambda>elt. fst elt \<noteq> []) elts then ConstantValue (ConstantPointerNull Int8PtrTy) Int8PtrTy
      else ConstantValue (GlobalString (concat (map (\<lambda>elt. fst elt @ '' '') elts))) Int8PtrTy)"

definition tryGetLocal :: "IRGenFunction \<Rightarrow> CanType \<Rightarrow> Value option" where
  "tryGetLocal IGF type = tryGetLocalTypeData IGF type"

text \<open>\<^verbatim>\<open>setLocal\<close> returns the value and stores nothing, as in the source.\<close>

definition setLocal :: "CanType \<Rightarrow> Value \<times> IRGenFunction \<Rightarrow> Value \<times> IRGenFunction" where
  "setLocal type metatype = metatype"

definition nullWitnessTable :: Value where
  "nullWitnessTable = ConstantValue (ConstantPointerNull WitnessTablePtrTy) WitnessTablePtrTy"

text \<open>
  The store loop of \<^verbatim>\<open>emitNominalMetadataRef\<close>: one \<^verbatim>\<open>CreateStructGEP\<close> and one
  \<^verbatim>\<open>CreateStore\<close> per argument.
\<close>

fun storeGenericArguments :: "Value \<Rightarrow> nat \<Rightarrow> Value list \<Rightarrow> IRGenFunction \<Rightarrow> IRGenFunction" where
  "storeGenericArguments argsBuffer i [] IGF = IGF"
| "storeGenericArguments argsBuffer i (v # vs) IGF =
     (let (elt, IGF1) = emitInst (StructGEPInst argsBuffer i) (PointerTo (getType v)) IGF;
          (stored, IGF2) = emitInst (StoreInst v elt) VoidTy IGF1
      in storeGenericArguments argsBuffer (Suc i) vs IGF2)"

text \<open>The second loop of \<^verbatim>\<open>GenericArguments::collect\<close>, over the substitutions.\<close>

fun collectWitnessTableRefs ::
    "IRGenModule \<Rightarrow> CanType list \<Rightarrow> IRGenFunction \<Rightarrow> Value list \<times> IRGenFunction" where
  "collectWitnessTableRefs IGM [] IGF = ([], IGF)"
| "collectWitnessTableRefs IGM (sub # subs) IGF =
     (let (tables, IGF1) = emitWitnessTableRefs IGM sub IGF;
          (tables', IGF2) = collectWitnessTableRefs IGM subs IGF1
      in (tables @ tables', IGF2))"

text \<open>
  What \<^verbatim>\<open>emitNominalMetadataRef\<close> does with the collected arguments of a generic type:
  the buffer, the stores, the cast and the call of \<^verbatim>\<open>swift_getGenericMetadata\<close>. Its result
  is returned; nothing is saved.
\<close>

definition emitGetGenericMetadata ::
    "IRGenModule \<Rightarrow> Value \<Rightarrow> CanType list \<Rightarrow> Value list \<Rightarrow> IRGenFunction
       \<Rightarrow> Value \<times> IRGenFunction" where
  "emitGetGenericMetadata IGM metadata subs metadataRefs IGF =
     (let (tables, IGF1) = collectWitnessTableRefs IGM subs IGF;
          values = metadataRefs @ tables;
          types = replicate (length metadataRefs) TypeMetadataPtrTy
                    @ replicate (length tables) WitnessTablePtrTy;
          (argsBuffer, IGF2) = emitInst (AllocaInst (StructTy types)) (PointerTo (StructTy types)) IGF1;
          IGF3 = storeGenericArguments argsBuffer 0 values IGF2;
          (arguments, IGF4) = emitInst (BitCastInst argsBuffer Int8PtrTy) Int8PtrTy IGF3
      in emitInst (CallInst GetGenericMetadataFn [metadata, arguments]) TypeMetadataPtrTy IGF4)"

text \<open>
  \<^verbatim>\<open>EmitTypeMetadataRef::visit\<close> with \<^verbatim>\<open>emitNominalMetadataRef\<close>. \<open>visitTypes\<close> is the first
  loop of \<^verbatim>\<open>GenericArguments::collect\<close>, \<open>visitElements\<close> the element visits of the two-
  and three-element tuples, and \<open>visitElementsInto\<close> the loop of the general tuple case,
  which returns the element pointers.
\<close>

fun EmitTypeMetadataRef_visit ::
    "IRGenModule \<Rightarrow> CanType \<Rightarrow> IRGenFunction \<Rightarrow> error + (Value \<times> IRGenFunction)"
  and emitNominalMetadataRef ::
    "IRGenModule \<Rightarrow> NominalTypeDecl \<Rightarrow> CanType \<Rightarrow> IRGenFunction \<Rightarrow> error + (Value \<times> IRGenFunction)"
  and visitTypes ::
    "IRGenModule \<Rightarrow> CanType list \<Rightarrow> IRGenFunction \<Rightarrow> error + (Value list \<times> IRGenFunction)"
  and visitElements ::
    "IRGenModule \<Rightarrow> (string \<times> CanType) list \<Rightarrow> IRGenFunction
       \<Rightarrow> error + (Value list \<times> IRGenFunction)"
  and visitElementsInto ::
    "IRGenModule \<Rightarrow> Value \<Rightarrow> nat \<Rightarrow> (string \<times> CanType) list \<Rightarrow> IRGenFunction
       \<Rightarrow> error + (Value list \<times> IRGenFunction)" where
  "EmitTypeMetadataRef_visit IGM (BuiltinIntegerType n) IGF =
     visitOpaqueType IGM (BuiltinIntegerType n) IGF"
| "EmitTypeMetadataRef_visit IGM (BuiltinFloatType n) IGF =
     visitOpaqueType IGM (BuiltinFloatType n) IGF"
| "EmitTypeMetadataRef_visit IGM BuiltinRawPointerType IGF =
     visitOpaqueType IGM BuiltinRawPointerType IGF"
| "EmitTypeMetadataRef_visit IGM BuiltinObjectPointerType IGF =
     Inr (emitDirectMetadataRef BuiltinObjectPointerType, IGF)"
| "EmitTypeMetadataRef_visit IGM BuiltinObjCPointerType IGF =
     Inr (emitDirectMetadataRef BuiltinObjCPointerType, IGF)"
| "EmitTypeMetadataRef_visit IGM (BuiltinVectorType t n) IGF =
     Inr (emitDirectMetadataRef (BuiltinVectorType t n), IGF)"
| "EmitTypeMetadataRef_visit IGM (NominalType d) IGF =
     emitNominalMetadataRef IGM d (NominalType d) IGF"
| "EmitTypeMetadataRef_visit IGM (BoundGenericType d args) IGF =
     emitNominalMetadataRef IGM d (BoundGenericType d args) IGF"
| "EmitTypeMetadataRef_visit IGM (TupleType []) IGF =
     (case tryGetLocal IGF (TupleType []) of
        Some cached \<Rightarrow> Inr (cached, IGF)
      | None \<Rightarrow> Inr (ConstantValue EmptyTupleMetadataAddressPoint TypeMetadataPtrTy, IGF))"
| "EmitTypeMetadataRef_visit IGM (TupleType [elt]) IGF =
     (case tryGetLocal IGF (TupleType [elt]) of
        Some cached \<Rightarrow> Inr (cached, IGF)
      | None \<Rightarrow> EmitTypeMetadataRef_visit IGM (snd elt) IGF)"
| "EmitTypeMetadataRef_visit IGM (TupleType [elt0, elt1]) IGF =
     (case tryGetLocal IGF (TupleType [elt0, elt1]) of
        Some cached \<Rightarrow> Inr (cached, IGF)
      | None \<Rightarrow>
         (case visitElements IGM [elt0, elt1] IGF of
            Inl err \<Rightarrow> Inl err
          | Inr (eltMetadata, IGF1) \<Rightarrow>
              Inr (setLocal (TupleType [elt0, elt1])
                     (emitInst (CallInst GetTupleMetadata2Fn
                                  (eltMetadata @ [getTupleLabelsString [elt0, elt1],
                                                  nullWitnessTable]))
                        TypeMetadataPtrTy IGF1))))"
| "EmitTypeMetadataRef_visit IGM (TupleType [elt0, elt1, elt2]) IGF =
     (case tryGetLocal IGF (TupleType [elt0, elt1, elt2]) of
        Some cached \<Rightarrow> Inr (cached, IGF)
      | None \<Rightarrow>
         (case visitElements IGM [elt0, elt1, elt2] IGF of
            Inl err \<Rightarrow> Inl err
          | Inr (eltMetadata, IGF1) \<Rightarrow>
              Inr (setLocal (TupleType [elt0, elt1, elt2])
                     (emitInst (CallInst GetTupleMetadata3Fn
                                  (eltMetadata @ [getTupleLabelsString [elt0, elt1, elt2],
                                                  nullWitnessTable]))
                        TypeMetadataPtrTy IGF1))))"
| "EmitTypeMetadataRef_visit IGM (TupleType (elt0 # elt1 # elt2 # elt3 # elts)) IGF =
     (let elements = elt0 # elt1 # elt2 # elt3 # elts
      in case tryGetLocal IGF (TupleType elements) of
        Some cached \<Rightarrow> Inr (cached, IGF)
      | None \<Rightarrow>
         (let arrayTy = ArrayTy TypeMetadataPtrTy (length elements);
              (buffer, IGF1) = emitInst (AllocaInst arrayTy) (PointerTo arrayTy) IGF
          in case visitElementsInto IGM buffer 0 elements IGF1 of
               Inl err \<Rightarrow> Inl err
             | Inr (eltPtrs, IGF2) \<Rightarrow>
                 Inr (setLocal (TupleType elements)
                        (emitInst (CallInst GetTupleMetadataFn
                                     [ConstantValue (ConstantInt SizeTy (length elements)) SizeTy,
                                      (case eltPtrs of
                                         [] \<Rightarrow> ConstantValue (ConstantPointerNull Int8PtrTy) Int8PtrTy
                                       | pointerToFirst # ptrs \<Rightarrow> pointerToFirst),
                                      getTupleLabelsString elements, nullWitnessTable])
                           TypeMetadataPtrTy IGF2))))"
| "EmitTypeMetadataRef_visit IGM (PolymorphicFunctionType i r) IGF =
     Inr (UndefValue TypeMetadataPtrTy,
          unimplemented ''metadata ref for polymorphic function type'' IGF)"
| "EmitTypeMetadataRef_visit IGM (GenericFunctionType i r) IGF =
     Inr (UndefValue TypeMetadataPtrTy,
          unimplemented ''metadata ref for generic function type'' IGF)"
| "EmitTypeMetadataRef_visit IGM (FunctionType i r) IGF =
     (case tryGetLocal IGF (FunctionType i r) of
        Some metatype \<Rightarrow> Inr (metatype, IGF)
      | None \<Rightarrow>
         (case EmitTypeMetadataRef_visit IGM i IGF of
            Inl err \<Rightarrow> Inl err
          | Inr (argMetadata, IGF1) \<Rightarrow>
             (case EmitTypeMetadataRef_visit IGM r IGF1 of
                Inl err \<Rightarrow> Inl err
              | Inr (resultMetadata, IGF2) \<Rightarrow>
                  Inr (setLocal (FunctionType i r)
                         (emitInst (CallInst GetFunctionMetadataFn [argMetadata, resultMetadata])
                            TypeMetadataPtrTy IGF2)))))"
| "EmitTypeMetadataRef_visit IGM (ArrayType t n) IGF =
     Inr (UndefValue TypeMetadataPtrTy, unimplemented ''metadata ref for array type'' IGF)"
| "EmitTypeMetadataRef_visit IGM (MetaTypeType t) IGF =
     (case tryGetLocal IGF (MetaTypeType t) of
        Some metatype \<Rightarrow> Inr (metatype, IGF)
      | None \<Rightarrow>
         (case EmitTypeMetadataRef_visit IGM t IGF of
            Inl err \<Rightarrow> Inl err
          | Inr (instMetadata, IGF1) \<Rightarrow>
              Inr (setLocal (MetaTypeType t)
                     (emitInst (CallInst GetMetatypeMetadataFn [instMetadata])
                        TypeMetadataPtrTy IGF1))))"
| "EmitTypeMetadataRef_visit IGM (ModuleType m) IGF =
     Inr (UndefValue TypeMetadataPtrTy, unimplemented ''metadata ref for module type'' IGF)"
| "EmitTypeMetadataRef_visit IGM (ProtocolCompositionType ps) IGF =
     Inr (UndefValue TypeMetadataPtrTy,
          unimplemented ''metadata ref for protocol comp type'' IGF)"
| "EmitTypeMetadataRef_visit IGM (ReferenceStorageType t) IGF =
     Inr (UndefValue TypeMetadataPtrTy,
          unimplemented ''metadata ref for ref storage type'' IGF)"
| "EmitTypeMetadataRef_visit IGM (ArchetypeType a) IGF =
     (case getLocalTypeData IGF (ArchetypeType a) of
        Inl err \<Rightarrow> Inl err
      | Inr v \<Rightarrow> Inr (v, IGF))"
| "EmitTypeMetadataRef_visit IGM (GenericTypeParamType d i) IGF =
     Inr (UndefValue TypeMetadataPtrTy,
          unimplemented ''metadata ref for generic type parameter'' IGF)"
| "EmitTypeMetadataRef_visit IGM (DependentMemberType t m) IGF =
     Inr (UndefValue TypeMetadataPtrTy,
          unimplemented ''metadata ref for dependent member type'' IGF)"
| "EmitTypeMetadataRef_visit IGM (LValueType t) IGF =
     Inr (UndefValue TypeMetadataPtrTy, unimplemented ''metadata ref for l-value type'' IGF)"
| "emitNominalMetadataRef IGM theDecl theType IGF =
     (if declKind theDecl = Class \<and> \<not> hasKnownSwiftMetadata theDecl then
        (if hasGenericParamsOfContext theDecl then Inl AssertionFailed
         else Inr (emitObjCMetadataRef IGF theDecl))
      else
        (let isPattern = hasGenericParamsOfContext theDecl
         in case theType of
              BoundGenericType d args \<Rightarrow>
                (if \<not> isPattern then Inl AssertionFailed
                 else case tryGetLocalTypeData IGF theType of
                   Some cache \<Rightarrow> Inr (cache, IGF)
                 | None \<Rightarrow>
                    (if d \<noteq> theDecl then Inl AssertionFailed
                     else case visitTypes IGM args IGF of
                       Inl err \<Rightarrow> Inl err
                     | Inr (metadataRefs, IGF1) \<Rightarrow>
                         Inr (emitGetGenericMetadata IGM
                                (getAddrOfTypeMetadata (NominalType theDecl)
                                   (isMetadataIndirect theDecl) True)
                                args metadataRefs IGF1)))
            | NominalType d \<Rightarrow>
                (if isPattern then Inl AssertionFailed
                 else Inr (getAddrOfTypeMetadata (NominalType theDecl)
                             (isMetadataIndirect theDecl) False, IGF))
            | _ \<Rightarrow> Inl AssertionFailed))"
| "visitTypes IGM [] IGF = Inr ([], IGF)"
| "visitTypes IGM (t # ts) IGF =
     (case EmitTypeMetadataRef_visit IGM t IGF of
        Inl err \<Rightarrow> Inl err
      | Inr (v, IGF1) \<Rightarrow>
         (case visitTypes IGM ts IGF1 of
            Inl err \<Rightarrow> Inl err
          | Inr (vs, IGF2) \<Rightarrow> Inr (v # vs, IGF2)))"
| "visitElements IGM [] IGF = Inr ([], IGF)"
| "visitElements IGM (elt # elts) IGF =
     (case EmitTypeMetadataRef_visit IGM (snd elt) IGF of
        Inl err \<Rightarrow> Inl err
      | Inr (v, IGF1) \<Rightarrow>
         (case visitElements IGM elts IGF1 of
            Inl err \<Rightarrow> Inl err
          | Inr (vs, IGF2) \<Rightarrow> Inr (v # vs, IGF2)))"
| "visitElementsInto IGM buffer i [] IGF = Inr ([], IGF)"
| "visitElementsInto IGM buffer i (elt # elts) IGF =
     (case EmitTypeMetadataRef_visit IGM (snd elt) IGF of
        Inl err \<Rightarrow> Inl err
      | Inr (eltMetadata, IGF1) \<Rightarrow>
         (let (eltPtr, IGF2) =
                emitInst (StructGEPInst buffer i) (PointerTo TypeMetadataPtrTy) IGF1;
              (stored, IGF3) = emitInst (StoreInst eltMetadata eltPtr) VoidTy IGF2
          in case visitElementsInto IGM buffer (Suc i) elts IGF3 of
               Inl err \<Rightarrow> Inl err
             | Inr (eltPtrs, IGF4) \<Rightarrow> Inr (eltPtr # eltPtrs, IGF4)))"

definition emitTypeMetadataRef ::
    "IRGenModule \<Rightarrow> CanType \<Rightarrow> IRGenFunction \<Rightarrow> error + (Value \<times> IRGenFunction)" where
  "emitTypeMetadataRef IGM type IGF = EmitTypeMetadataRef_visit IGM type IGF"

text \<open>The calls of a runtime entry point among the instructions of a session.\<close>

fun isCallOf :: "RuntimeFn \<Rightarrow> Instr \<Rightarrow> bool" where
  "isCallOf fn (CallInst f args) = (f = fn)"
| "isCallOf fn i = False"

definition callsOf :: "RuntimeFn \<Rightarrow> IRGenFunction \<Rightarrow> nat" where
  "callsOf fn IGF = length (filter (isCallOf fn) (Insts IGF))"

section \<open>Notions of the specification\<close>

text \<open>
  The functions declared in the classes of the hierarchy, those of the target class
  first, then its superclass's, up to the root: the order of the walk.
\<close>

fun memberFuncs :: "Member list \<Rightarrow> FuncDecl list" where
  "memberFuncs [] = []"
| "memberFuncs (FuncMember fn # members) = fn # memberFuncs members"
| "memberFuncs (member # members) = memberFuncs members"

fun hierarchyFuncs :: "ClassDecl \<Rightarrow> FuncDecl list" where
  "hierarchyFuncs (ClassDecl d objc members super) =
     memberFuncs members @ (case super of None \<Rightarrow> [] | Some (ty, cls) \<Rightarrow> hierarchyFuncs cls)"

text \<open>
  The final overrider in the words of the specification: the most-derived implementation
  in the hierarchy that overrides the method, transitively, or is the method itself.
\<close>

definition mostDerivedOverrider :: "FuncDecl list \<Rightarrow> FuncDecl \<Rightarrow> FuncDecl option" where
  "mostDerivedOverrider fs fn = find (\<lambda>g. fn \<in> set (g # overriddenDecls g)) fs"

text \<open>
  What the type checker guarantees of a class hierarchy: a declaration is a member once,
  an overridden declaration is declared farther up than its override, and no two
  methods of the hierarchy override the same declaration directly.
\<close>

fun overridesUpward :: "FuncDecl list \<Rightarrow> bool" where
  "overridesUpward [] = True"
| "overridesUpward (fn # fs) =
     ((case getOverriddenDecl fn of None \<Rightarrow> True | Some overridden \<Rightarrow> overridden \<in> set fs)
      \<and> overridesUpward fs)"

definition wellFormedHierarchy :: "FuncDecl list \<Rightarrow> bool" where
  "wellFormedHierarchy fs =
     (distinct fs \<and> overridesUpward fs \<and> distinct (List.map_filter getOverriddenDecl fs))"

section \<open>Example declarations\<close>

text \<open>
  A 64-bit module with an abstraction analysis under which an archetype is passed and
  returned indirectly and every other type directly, in which the value witness table of
  a generic value type is dependent and its pattern has three fields, and in which no
  witness tables are passed.
\<close>

definition exampleIGM :: IRGenModule where
  "exampleIGM =
     \<lparr> getPointerSize = 8, ObjCInterop = True,
       requiresIndirectResult = (\<lambda>t lvl. case t of ArchetypeType a \<Rightarrow> True | _ \<Rightarrow> False),
       differsByAbstractionInExplosion =
         (\<lambda>overridden override lvl. case overridden of ArchetypeType a \<Rightarrow> True | _ \<Rightarrow> False),
       differsByAbstractionInMemory = (\<lambda>overridden override. False),
       parentTypeOf = (\<lambda>d. TupleType []),
       hasDependentValueWitnessTable = (\<lambda>d. hasGenericParamsOfContext d),
       dependentValueWitnessTablePattern =
         (\<lambda>d. [ConstantPointerNull Int8PtrTy, ConstantPointerNull Int8PtrTy,
               ConstantPointerNull Int8PtrTy]),
       fixedSizeAndAlignment = (\<lambda>t. case t of BuiltinIntegerType n \<Rightarrow> Some (n div 8, n div 8)
                                      | _ \<Rightarrow> None),
       emitWitnessTableRefs = (\<lambda>sub IGF. ([], IGF)) \<rparr>"

definition IntDecl :: NominalTypeDecl where
  "IntDecl = NominalTypeDecl ''Int'' Struct False False False"

definition IntTy :: CanType where
  "IntTy = NominalType IntDecl"

definition BaseDecl :: NominalTypeDecl where
  "BaseDecl = NominalTypeDecl ''Base'' Class False True False"

definition DerivedDecl :: NominalTypeDecl where
  "DerivedDecl = NominalTypeDecl ''Derived'' Class False False False"

text \<open>
  \<^verbatim>\<open>class Base<T> { func f(x: Int) -> T }\<close> and
  \<^verbatim>\<open>class Derived : Base<Int> { func f(x: Int) -> Int }\<close>.
\<close>

definition Base_f :: FuncDecl where
  "Base_f = FuncDecl ''Base.f'' (NominalContext BaseDecl) False
     (FunctionType (BoundGenericType BaseDecl [ArchetypeType ''T''])
        (FunctionType IntTy (ArchetypeType ''T''))) None"

definition Derived_f :: FuncDecl where
  "Derived_f = FuncDecl ''Derived.f'' (NominalContext DerivedDecl) False
     (FunctionType (NominalType DerivedDecl) (FunctionType IntTy IntTy)) (Some Base_f)"

text \<open>
  A chain that ends in an imported method: \<^verbatim>\<open>Leaf.m\<close> overrides \<^verbatim>\<open>Mid.m\<close>, both Swift
  classes, and \<^verbatim>\<open>Mid.m\<close> overrides the method \<^verbatim>\<open>m\<close> of the imported class \<^verbatim>\<open>NSThing\<close>.
\<close>

definition NSThingDecl :: NominalTypeDecl where
  "NSThingDecl = NominalTypeDecl ''NSThing'' Class True False False"

definition MidDecl :: NominalTypeDecl where
  "MidDecl = NominalTypeDecl ''Mid'' Class False False False"

definition LeafDecl :: NominalTypeDecl where
  "LeafDecl = NominalTypeDecl ''Leaf'' Class False False False"

definition NSThing_m :: FuncDecl where
  "NSThing_m = FuncDecl ''NSThing.m'' (NominalContext NSThingDecl) True
     (FunctionType (NominalType NSThingDecl) (FunctionType (TupleType []) (TupleType []))) None"

definition Mid_m :: FuncDecl where
  "Mid_m = FuncDecl ''Mid.m'' (NominalContext MidDecl) False
     (FunctionType (NominalType MidDecl) (FunctionType (TupleType []) (TupleType [])))
     (Some NSThing_m)"

definition Leaf_m :: FuncDecl where
  "Leaf_m = FuncDecl ''Leaf.m'' (NominalContext LeafDecl) False
     (FunctionType (NominalType LeafDecl) (FunctionType (TupleType []) (TupleType [])))
     (Some Mid_m)"

text \<open>
  Chains whose closest ancestor takes its argument at another abstraction level:
  \<^verbatim>\<open>Top.g\<close> is native in \<open>Leaf_g\<close>'s chain and imported in \<open>Leaf_h\<close>'s.
\<close>

definition Mid_g :: "FuncDecl \<Rightarrow> FuncDecl" where
  "Mid_g ancestor = FuncDecl ''Mid.g'' (NominalContext MidDecl) False
     (FunctionType (NominalType MidDecl) (FunctionType (ArchetypeType ''T'') (TupleType [])))
     (Some ancestor)"

definition Top_g :: FuncDecl where
  "Top_g = FuncDecl ''Top.g'' (NominalContext BaseDecl) False
     (FunctionType (NominalType BaseDecl) (FunctionType IntTy (TupleType []))) None"

definition NSThing_g :: FuncDecl where
  "NSThing_g = FuncDecl ''NSThing.g'' (NominalContext NSThingDecl) True
     (FunctionType (NominalType NSThingDecl) (FunctionType IntTy (TupleType []))) None"

definition Leaf_g :: FuncDecl where
  "Leaf_g = FuncDecl ''Leaf.g'' (NominalContext LeafDecl) False
     (FunctionType (NominalType LeafDecl) (FunctionType IntTy (TupleType [])))
     (Some (Mid_g Top_g))"

definition Leaf_h :: FuncDecl where
  "Leaf_h = FuncDecl ''Leaf.h'' (NominalContext LeafDecl) False
     (FunctionType (NominalType LeafDecl) (FunctionType IntTy (TupleType [])))
     (Some (Mid_g NSThing_g))"

text \<open>
  \<^verbatim>\<open>class Root { func f() }\<close>, \<^verbatim>\<open>class Middle : Root { override func f() }\<close> and
  \<^verbatim>\<open>class Bottom : Middle { var x; override func f() }\<close>.
\<close>

definition RootDecl :: NominalTypeDecl where
  "RootDecl = NominalTypeDecl ''Root'' Class False False False"

definition MiddleDecl :: NominalTypeDecl where
  "MiddleDecl = NominalTypeDecl ''Middle'' Class False False False"

definition BottomDecl :: NominalTypeDecl where
  "BottomDecl = NominalTypeDecl ''Bottom'' Class False False False"

definition Root_f :: FuncDecl where
  "Root_f = FuncDecl ''Root.f'' (NominalContext RootDecl) False
     (FunctionType (NominalType RootDecl) (FunctionType (TupleType []) (TupleType []))) None"

definition Middle_f :: FuncDecl where
  "Middle_f = FuncDecl ''Middle.f'' (NominalContext MiddleDecl) False
     (FunctionType (NominalType MiddleDecl) (FunctionType (TupleType []) (TupleType [])))
     (Some Root_f)"

definition Bottom_f :: FuncDecl where
  "Bottom_f = FuncDecl ''Bottom.f'' (NominalContext BottomDecl) False
     (FunctionType (NominalType BottomDecl) (FunctionType (TupleType []) (TupleType [])))
     (Some Middle_f)"

definition RootClass :: ClassDecl where
  "RootClass = ClassDecl RootDecl False [FuncMember Root_f] None"

definition MiddleClass :: ClassDecl where
  "MiddleClass = ClassDecl MiddleDecl False [FuncMember Middle_f]
     (Some (NominalType RootDecl, RootClass))"

definition BottomClass :: ClassDecl where
  "BottomClass = ClassDecl BottomDecl False [VarMember ''x'', FuncMember Bottom_f]
     (Some (NominalType MiddleDecl, MiddleClass))"

lemmas hierarchy_defs =
  RootDecl_def MiddleDecl_def BottomDecl_def Root_f_def Middle_f_def Bottom_f_def
  RootClass_def MiddleClass_def BottomClass_def

text \<open>
  \<^verbatim>\<open>struct Pair<T : P>\<close> with a traversal in the order of a value type: the value witness
  table, the address point, the flags, the descriptor, the parent and the generic fields.
\<close>

definition PairDecl :: NominalTypeDecl where
  "PairDecl = NominalTypeDecl ''Pair'' Struct False True False"

definition pairLayout :: "LayoutHook list" where
  "pairLayout =
     [AddValueWitnessTable, NoteAddressPoint, AddMetadataFlags, AddNominalTypeDescriptor,
      AddParentMetadataRef None, AddGenericArgument ''T'' None,
      AddGenericWitnessTable ''T'' ''P'' None]"

text \<open>
  A scanner whose hooks advance the index by the number of fields the builder adds, a
  class and a struct nested in a type, and a class traversal in the order the
  specification gives: flags, value witness table, destructor, parent, superclass, the
  address point, field offsets.
\<close>

definition exampleScan :: "LayoutHook \<Rightarrow> 32 word" where
  "exampleScan hook = (case hook of AddClassCacheData \<Rightarrow> 2 | _ \<Rightarrow> 1)"

definition InnerClassDecl :: NominalTypeDecl where
  "InnerClassDecl = NominalTypeDecl ''InnerClass'' Class False False True"

definition InnerStructDecl :: NominalTypeDecl where
  "InnerStructDecl = NominalTypeDecl ''InnerStruct'' Struct False False True"

definition innerClassLayout :: "NominalTypeDecl \<Rightarrow> LayoutHook list" where
  "innerClassLayout theClass =
     [AddMetadataFlags, AddValueWitnessTable, AddDestructorFunction,
      AddParentMetadataRef (Some theClass), AddSuperClass, NoteAddressPoint,
      AddFieldOffset ''x'']"

definition someMetadata :: Value where
  "someMetadata = InstResult 0 TypeMetadataPtrTy"

definition someIGF :: IRGenFunction where
  "someIGF = \<lparr> Insts = [LoadInst (UndefValue (PointerTo TypeMetadataPtrTy))],
               LocalTypeData = [], UnimplementedFeatures = [] \<rparr>"

text \<open>The types \<^verbatim>\<open>(Int, Int)\<close> and \<^verbatim>\<open>Pair<Int>\<close>.\<close>

definition IntPairTy :: CanType where
  "IntPairTy = TupleType [([], IntTy), ([], IntTy)]"

definition PairOfIntTy :: CanType where
  "PairOfIntTy = BoundGenericType PairDecl [IntTy]"

lemmas example_defs =
  exampleIGM_def IntDecl_def IntTy_def BaseDecl_def DerivedDecl_def Base_f_def Derived_f_def
  NSThingDecl_def MidDecl_def LeafDecl_def NSThing_m_def Mid_m_def Leaf_m_def
  Mid_g_def Top_g_def NSThing_g_def Leaf_g_def Leaf_h_def

lemmas override_defs =
  doesMethodRequireOverrideEntry_def hasKnownVTableEntry_def hasKnownSwiftImplementation_def
  isCompatibleOverride_def isIncompatibleOverrideArgument_def isIncompatibleOverrideResult_def
  visitType_def

section \<open>Override compatibility: results\<close>

text \<open>
  C1. An override whose overridden result is returned indirectly and whose own result is
  returned directly should get a new v-table slot. Here the code is run on
  \<^verbatim>\<open>Derived.f(Int) -> Int\<close> overriding \<^verbatim>\<open>Base<T>.f(Int) -> T\<close>: the result check
  \<open>isIncompatibleOverrideResult\<close> answers "incompatible" for the results \<open>Int\<close> and \<open>T\<close>,
  \<open>isCompatibleOverride\<close> returns that answer unnegated, so it reports the pair
  compatible, and \<open>doesMethodRequireOverrideEntry\<close> answers that no new slot is needed.
\<close>

theorem C1_indirect_to_direct_result_reuses_slot:
  "requiresIndirectResult exampleIGM (ArchetypeType ''T'') Minimal
   \<and> \<not> requiresIndirectResult exampleIGM IntTy Minimal
   \<and> isIncompatibleOverrideResult exampleIGM IntTy (ArchetypeType ''T'') Minimal = Inr True
   \<and> isCompatibleOverride exampleIGM Derived_f Base_f Minimal 1 = Inr True
   \<and> doesMethodRequireOverrideEntry exampleIGM Derived_f Minimal 1 = Inr False"
  by (simp add: override_defs example_defs)

lemma overrideEntryWalk_decisive:
  assumes "overridden # overriddenDecls overridden = pre @ d # post"
    and "\<forall>p\<in>set pre. hasKnownVTableEntry p = Inr True
           \<and> isCompatibleOverride IGM fn p lvl unc = Inr False"
    and "hasKnownVTableEntry d = Inr known"
    and "known \<longrightarrow> isCompatibleOverride IGM fn d lvl unc = Inr True"
  shows "overrideEntryWalk IGM fn lvl unc overridden = Inr (\<not> known)"
  using assms
proof (induction pre arbitrary: overridden)
  case Nil
  then have "d = overridden" by simp
  with Nil show ?case
    by (cases overridden) (auto split: sum.splits bool.splits)
next
  case (Cons p pre)
  from Cons.prems(1) have p: "p = overridden"
    and rest: "overriddenDecls overridden = pre @ d # post" by auto
  obtain name ctx clang ty nxt where ov: "overridden = FuncDecl name ctx clang ty nxt"
    by (cases overridden)
  from rest ov obtain ov' where nxt: "nxt = Some ov'"
    by (cases nxt) auto
  with rest ov have "ov' # overriddenDecls ov' = pre @ d # post" by simp
  with Cons.IH Cons.prems have "overrideEntryWalk IGM fn lvl unc ov' = Inr (\<not> known)"
    by simp
  moreover from Cons.prems(2) p have "hasKnownVTableEntry overridden = Inr True"
    and "isCompatibleOverride IGM fn overridden lvl unc = Inr False" by simp_all
  ultimately show ?case using ov nxt by simp
qed

lemma overriddenDecls_getOverriddenDecl:
  "getOverriddenDecl fn = Some overridden \<Longrightarrow>
     overriddenDecls fn = overridden # overriddenDecls overridden"
  by (cases fn) simp

text \<open>
  C8 (as amended). The walk meets the overridden declarations closest first. At the first
  declaration \<open>d\<close> that is decisive, every closer one having a v-table entry and being judged
  incompatible, the walk stops: when \<open>d\<close> has no v-table entry (\<open>known = False\<close>) a new slot
  is required, and when \<open>d\<close> has one and is judged compatible, no new slot is needed.
\<close>

theorem C8_walk_stops_at_first_decisive_ancestor:
  assumes "overriddenDecls fn = pre @ d # post"
    and "\<forall>p\<in>set pre. hasKnownVTableEntry p = Inr True
           \<and> isCompatibleOverride IGM fn p lvl unc = Inr False"
    and "hasKnownVTableEntry d = Inr known"
    and "known \<longrightarrow> isCompatibleOverride IGM fn d lvl unc = Inr True"
  shows "doesMethodRequireOverrideEntry IGM fn lvl unc = Inr (\<not> known)"
proof (cases "getOverriddenDecl fn")
  case None
  then have "overriddenDecls fn = []" by (cases fn) simp
  with assms(1) show ?thesis by simp
next
  case (Some overridden)
  with assms(1) have "overridden # overriddenDecls overridden = pre @ d # post"
    by (simp add: overriddenDecls_getOverriddenDecl)
  from overrideEntryWalk_decisive [OF this assms(2-4)] Some show ?thesis
    by (simp add: doesMethodRequireOverrideEntry_def)
qed

text \<open>
  The theorem at two chains: \<open>Leaf_g\<close>, whose closest ancestor is judged incompatible and
  whose next one is native and compatible, and \<open>Leaf_h\<close>, whose next one is imported.
\<close>

theorem C8_walk_stops_at_first_decisive_ancestor_witness:
  "doesMethodRequireOverrideEntry exampleIGM Leaf_g Minimal 1 = Inr False
   \<and> doesMethodRequireOverrideEntry exampleIGM Leaf_h Minimal 1 = Inr True"
proof
  have chain: "overriddenDecls Leaf_g = [Mid_g Top_g] @ Top_g # []"
    by (simp add: Leaf_g_def Mid_g_def Top_g_def)
  have pre: "\<forall>p\<in>set [Mid_g Top_g]. hasKnownVTableEntry p = Inr True
               \<and> isCompatibleOverride exampleIGM Leaf_g p Minimal 1 = Inr False"
    by (simp add: override_defs example_defs)
  have known: "hasKnownVTableEntry Top_g = Inr True"
    by (simp add: override_defs example_defs)
  have compat: "True \<longrightarrow> isCompatibleOverride exampleIGM Leaf_g Top_g Minimal 1 = Inr True"
    by (simp add: override_defs example_defs)
  from C8_walk_stops_at_first_decisive_ancestor [OF chain pre known compat]
  show "doesMethodRequireOverrideEntry exampleIGM Leaf_g Minimal 1 = Inr False" by simp
next
  have chain: "overriddenDecls Leaf_h = [Mid_g NSThing_g] @ NSThing_g # []"
    by (simp add: Leaf_h_def Mid_g_def NSThing_g_def)
  have pre: "\<forall>p\<in>set [Mid_g NSThing_g]. hasKnownVTableEntry p = Inr True
               \<and> isCompatibleOverride exampleIGM Leaf_h p Minimal 1 = Inr False"
    by (simp add: override_defs example_defs)
  have known: "hasKnownVTableEntry NSThing_g = Inr False"
    by (simp add: override_defs example_defs)
  have compat: "False \<longrightarrow> isCompatibleOverride exampleIGM Leaf_h NSThing_g Minimal 1 = Inr True"
    by simp
  from C8_walk_stops_at_first_decisive_ancestor [OF chain pre known compat]
  show "doesMethodRequireOverrideEntry exampleIGM Leaf_h Minimal 1 = Inr True" by simp
qed

text \<open>
  Without the amendment the statement fails on \<open>Leaf_m\<close>: the imported \<open>NSThing_m\<close> is in its chain and has
  no v-table entry, yet the walk stops one step earlier, at the compatible \<open>Mid_m\<close>, and
  answers that no new slot is needed.
\<close>

theorem C8_foreign_ancestor_behind_compatible_one_counterexample:
  "NSThing_m \<in> set (overriddenDecls Leaf_m)
   \<and> hasKnownVTableEntry NSThing_m = Inr False
   \<and> doesMethodRequireOverrideEntry exampleIGM Leaf_m Minimal 1 = Inr False"
  by (simp add: override_defs example_defs)

section \<open>Final overriders: results\<close>

lemma noteMembers_foldl:
  "noteMembers m members = foldl noteFinalOverrider m (memberFuncs members)"
  by (induction m members rule: noteMembers.induct) simp_all

lemma computeFinalOverriders_from_foldl:
  "computeFinalOverriders_from m cls = foldl noteFinalOverrider m (hierarchyFuncs cls)"
  by (induction m cls rule: computeFinalOverriders_from.induct)
     (simp add: noteMembers_foldl split: option.splits)

lemma overridden_in_overriddenDecls:
  "getOverriddenDecl g = Some ov \<Longrightarrow> ov \<in> set (overriddenDecls g)"
  by (cases g) auto

lemma overriddenDecls_trans:
  "f \<in> set (overriddenDecls g) \<Longrightarrow> x \<in> set (overriddenDecls f) \<Longrightarrow> x \<in> set (overriddenDecls g)"
  by (induction g rule: overriddenDecls.induct) auto

lemma overriddenDecls_predecessor:
  "x \<in> set (overriddenDecls g) \<Longrightarrow>
     \<exists>h\<in>set (g # overriddenDecls g). getOverriddenDecl h = Some x"
  by (induction g rule: overriddenDecls.induct) auto

lemma overridesUpward_direct:
  "overridesUpward fs \<Longrightarrow> g \<in> set fs \<Longrightarrow> getOverriddenDecl g = Some ov \<Longrightarrow> ov \<in> set fs"
  by (induction fs) auto

lemma overridesUpward_closed:
  "overridesUpward fs \<Longrightarrow> g \<in> set fs \<Longrightarrow> set (overriddenDecls g) \<subseteq> set fs"
proof (induction g rule: overriddenDecls.induct)
  case (1 name ctx clang ty)
  then show ?case by simp
next
  case (2 name ctx clang ty overridden)
  then have "overridden \<in> set fs"
    using overridesUpward_direct [of fs "FuncDecl name ctx clang ty (Some overridden)" overridden]
    by simp
  with 2 show ?case by simp
qed

lemma overridesUpward_suffix: "overridesUpward (P @ R) \<Longrightarrow> overridesUpward R"
  by (induction P) auto

lemma overrider_precedes:
  assumes "overridesUpward (P @ f # R)" and "f \<notin> set R" and "h \<in> set (P @ f # R)"
    and "getOverriddenDecl h = Some f"
  shows "h \<in> set P"
proof (rule ccontr)
  assume "h \<notin> set P"
  with assms(3) have h: "h \<in> set (f # R)" by auto
  from assms(1) have up: "overridesUpward (f # R)" by (rule overridesUpward_suffix)
  show False
  proof (cases "h = f")
    case True
    with up assms(4) assms(2) show False by simp
  next
    case False
    with h have "h \<in> set R" by simp
    moreover from up have "overridesUpward R" by simp
    ultimately have "f \<in> set R" using assms(4) overridesUpward_direct by blast
    with assms(2) show False by simp
  qed
qed

lemma direct_overrider_unique:
  "distinct (List.map_filter getOverriddenDecl fs) \<Longrightarrow> g \<in> set fs \<Longrightarrow> h \<in> set fs \<Longrightarrow>
     getOverriddenDecl g = Some ov \<Longrightarrow> getOverriddenDecl h = Some ov \<Longrightarrow> g = h"
proof (induction fs)
  case Nil
  then show ?case by simp
next
  case (Cons a fs)
  have mem: "\<And>x. x \<in> set fs \<Longrightarrow> getOverriddenDecl x = Some ov \<Longrightarrow>
     ov \<in> set (List.map_filter getOverriddenDecl fs)"
    by (force simp: List.map_filter_def)
  from Cons show ?case
    by (cases "getOverriddenDecl a") (auto simp: List.map_filter_simps dest: mem)
qed


lemma find_last: "find p (xs @ [x]) = (case find p xs of None \<Rightarrow> (if p x then Some x else None) | Some v \<Rightarrow> Some v)"
  by (induction xs) auto

lemma finalOverriders_prefix:
  assumes wf: "wellFormedHierarchy fs" and split: "fs = P @ R"
  shows "dom (foldl noteFinalOverrider Map.empty P) =
           set P \<union> {ov. \<exists>g\<in>set P. getOverriddenDecl g = Some ov}
         \<and> (\<forall>x g. foldl noteFinalOverrider Map.empty P x = Some g \<longrightarrow>
               mostDerivedOverrider P x = Some g)"
  using split
proof (induction P arbitrary: R rule: rev_induct)
  case Nil
  show ?case by simp
next
  case (snoc f P)
  define m where "m = foldl noteFinalOverrider Map.empty P"
  define fo where "fo = (case m f of None \<Rightarrow> f | Some g \<Rightarrow> g)"
  define m' where "m' = noteFinalOverrider m f"
  from snoc.prems have fs: "fs = P @ f # R" by simp
  from snoc.IH [OF fs] have dom_m: "dom m = set P \<union> {ov. \<exists>g\<in>set P. getOverriddenDecl g = Some ov}"
    and sel_m: "\<And>x g. m x = Some g \<Longrightarrow> mostDerivedOverrider P x = Some g"
    by (simp_all add: m_def)
  from wf fs have dist: "distinct (P @ f # R)" and up: "overridesUpward (P @ f # R)"
    and uniq: "distinct (List.map_filter getOverriddenDecl (P @ f # R))"
    by (simp_all add: wellFormedHierarchy_def)
  from dist have f_notin_R: "f \<notin> set R" and f_notin_P: "f \<notin> set P" by auto
  have step: "foldl noteFinalOverrider Map.empty (P @ [f]) = m'"
    by (simp add: m_def m'_def)
  have m'_f: "m' f = Some fo"
    by (auto simp: m'_def fo_def noteFinalOverrider_def Let_def split: option.splits)
  have m'_old: "m' x = m x" if "x \<in> dom m" for x
    using that by (auto simp: m'_def noteFinalOverrider_def Let_def split: option.splits)
  have m'_new: "x = f \<or> (getOverriddenDecl f = Some x \<and> g = fo)" if "m' x = Some g" "x \<notin> dom m" for x g
    using that by (auto simp: m'_def fo_def noteFinalOverrider_def Let_def split: option.splits if_splits)
  have dom_m': "dom m' = dom m \<union> {f} \<union> {ov. getOverriddenDecl f = Some ov}"
    by (auto simp: m'_def noteFinalOverrider_def Let_def split: option.splits if_splits)
  have no_overrider_in_P: "f \<notin> set (q # overriddenDecls q)" if "q \<in> set P" "f \<notin> dom m" for q
  proof
    assume "f \<in> set (q # overriddenDecls q)"
    with that(1) f_notin_P have "f \<in> set (overriddenDecls q)" by auto
    then obtain h where h: "h \<in> set (q # overriddenDecls q)" "getOverriddenDecl h = Some f"
      using overriddenDecls_predecessor by blast
    from that(1) have "q \<in> set (P @ f # R)" by simp
    with up h(1) have "h \<in> set (P @ f # R)"
      using overridesUpward_closed [of "P @ f # R" q] by auto
    from overrider_precedes [OF up f_notin_R this h(2)] have "h \<in> set P" .
    with h(2) dom_m have "f \<in> dom m" by auto
    with that(2) show False by simp
  qed
  have same_pred: "(ov \<in> set (q # overriddenDecls q)) = (f \<in> set (q # overriddenDecls q))"
    if "q \<in> set P" "getOverriddenDecl f = Some ov" "ov \<notin> dom m" for q ov
  proof
    assume "f \<in> set (q # overriddenDecls q)"
    with that(2) show "ov \<in> set (q # overriddenDecls q)"
      using overridden_in_overriddenDecls [of f ov] overriddenDecls_trans [of f q ov] by auto
  next
    assume "ov \<in> set (q # overriddenDecls q)"
    moreover from that(1,3) dom_m have "ov \<noteq> q" by auto
    ultimately have "ov \<in> set (overriddenDecls q)" by simp
    then obtain h where h: "h \<in> set (q # overriddenDecls q)" "getOverriddenDecl h = Some ov"
      using overriddenDecls_predecessor by blast
    from that(1) have "q \<in> set (P @ f # R)" by simp
    with up h(1) have "h \<in> set (P @ f # R)"
      using overridesUpward_closed [of "P @ f # R" q] by auto
    moreover have "f \<in> set (P @ f # R)" by simp
    ultimately have "h = f"
      using direct_overrider_unique [OF uniq _ _ h(2) that(2)] by blast
    with h(1) show "f \<in> set (q # overriddenDecls q)" by simp
  qed
  have sel_f: "mostDerivedOverrider (P @ [f]) f = Some fo"
  proof (cases "m f")
    case None
    then have "f \<notin> dom m" by auto
    then have "find (\<lambda>g. f \<in> set (g # overriddenDecls g)) P = None"
      using no_overrider_in_P by (auto simp: find_None_iff)
    with None show ?thesis
      by (simp add: mostDerivedOverrider_def find_last fo_def)
  next
    case (Some g')
    from sel_m [OF this] Some show ?thesis
      by (simp add: mostDerivedOverrider_def find_last fo_def)
  qed
  have sel_m': "mostDerivedOverrider (P @ [f]) x = Some g" if "m' x = Some g" for x g
  proof (cases "x \<in> dom m")
    case True
    with that have "m x = Some g" using m'_old by simp
    from sel_m [OF this] show ?thesis
      by (simp add: mostDerivedOverrider_def find_last)
  next
    case False
    from m'_new [OF that False] show ?thesis
    proof
      assume "x = f"
      with that m'_f sel_f show ?thesis by simp
    next
      assume ov: "getOverriddenDecl f = Some x \<and> g = fo"
      have "find (\<lambda>g. x \<in> set (g # overriddenDecls g)) P
              = find (\<lambda>g. f \<in> set (g # overriddenDecls g)) P"
        using same_pred [OF _ _ False] ov by (intro find_cong) auto
      moreover from ov have "x \<in> set (f # overriddenDecls f)"
        using overridden_in_overriddenDecls by simp
      ultimately have "mostDerivedOverrider (P @ [f]) x = mostDerivedOverrider (P @ [f]) f"
        by (simp add: mostDerivedOverrider_def find_last)
      with sel_f ov show ?thesis by simp
    qed
  qed
  have "dom m' = set (P @ [f]) \<union> {ov. \<exists>g\<in>set (P @ [f]). getOverriddenDecl g = Some ov}"
    using dom_m' dom_m by auto
  with sel_m' show ?case unfolding step by blast
qed

lemma finalOverriders_mostDerived:
  assumes "wellFormedHierarchy (hierarchyFuncs cls)" and "fn \<in> set (hierarchyFuncs cls)"
  shows "\<exists>g. computeFinalOverriders cls fn = Some g
            \<and> mostDerivedOverrider (hierarchyFuncs cls) fn = Some g"
proof -
  let ?m = "foldl noteFinalOverrider Map.empty (hierarchyFuncs cls)"
  from finalOverriders_prefix [OF assms(1), of "hierarchyFuncs cls" "[]"]
  have dom: "dom ?m = set (hierarchyFuncs cls)
                \<union> {ov. \<exists>g\<in>set (hierarchyFuncs cls). getOverriddenDecl g = Some ov}"
    and sel: "\<And>x g. ?m x = Some g \<Longrightarrow> mostDerivedOverrider (hierarchyFuncs cls) x = Some g"
    by simp_all
  from dom assms(2) obtain g where "?m fn = Some g" by auto
  with sel show ?thesis
    by (auto simp: computeFinalOverriders_def computeFinalOverriders_from_foldl)
qed


text \<open>
  C3. In a well-formed hierarchy, the slot the class builder adds for a method of the
  hierarchy holds the function reference of the method's final overrider: the
  most-derived implementation, over the target class and all its superclasses, that
  overrides the method transitively (the method itself when nothing overrides it), at
  the explosion and uncurry level of the slot.
\<close>

theorem C3_method_slot_holds_final_overrider:
  assumes "Target b = ClassTarget theClass"
    and "FinalOverriders b = computeFinalOverriders theClass"
    and "wellFormedHierarchy (hierarchyFuncs theClass)"
    and "getDecl fn \<in> set (hierarchyFuncs theClass)"
  shows "\<exists>g b'. mostDerivedOverrider (hierarchyFuncs theClass) (getDecl fn) = Some g
           \<and> builderHook IGM (AddMethod fn) b = Inr b'
           \<and> Fields b' = Fields b @
               [AddrOfFunction (FunctionRef g (getExplosionLevel fn) (getUncurryLevel fn))]"
proof -
  from finalOverriders_mostDerived [OF assms(3) assms(4)] obtain g
    where g: "computeFinalOverriders theClass (getDecl fn) = Some g"
      and sel: "mostDerivedOverrider (hierarchyFuncs theClass) (getDecl fn) = Some g"
    by blast
  from g assms(1,2) have "\<exists>b'. builderHook IGM (AddMethod fn) b = Inr b'
      \<and> Fields b' = Fields b @
          [AddrOfFunction (FunctionRef g (getExplosionLevel fn) (getUncurryLevel fn))]"
    by (simp add: builderHook_def baseHook_def addMethod_def push_back_def)
  with sel show ?thesis by blast
qed

text \<open>
  The slot of the grandparent's method \<open>Root_f\<close> in the metadata of \<open>BottomClass\<close> holds
  \<open>Bottom_f\<close>.
\<close>

theorem C3_method_slot_holds_final_overrider_witness:
  "wellFormedHierarchy (hierarchyFuncs BottomClass)
   \<and> mostDerivedOverrider (hierarchyFuncs BottomClass) Root_f = Some Bottom_f
   \<and> (\<exists>b'. builderHook exampleIGM (AddMethod (FunctionRef Root_f Minimal 1))
              (newClassMetadataBuilder False BottomClass) = Inr b'
         \<and> Fields b' = [AddrOfFunction (FunctionRef Bottom_f Minimal 1)])"
proof -
  let ?b = "newClassMetadataBuilder False BottomClass"
  have funcs: "hierarchyFuncs BottomClass = [Bottom_f, Middle_f, Root_f]"
    by (simp add: BottomClass_def MiddleClass_def RootClass_def)
  have wf: "wellFormedHierarchy (hierarchyFuncs BottomClass)"
    by (simp add: funcs wellFormedHierarchy_def
          List.map_filter_simps Bottom_f_def Middle_f_def Root_f_def)
  have tgt: "Target ?b = ClassTarget BottomClass"
    by (simp add: newClassMetadataBuilder_def)
  have fo: "FinalOverriders ?b = computeFinalOverriders BottomClass"
    by (simp add: newClassMetadataBuilder_def)
  have mem: "getDecl (FunctionRef Root_f Minimal 1) \<in> set (hierarchyFuncs BottomClass)"
    by (simp add: funcs)
  have sel: "mostDerivedOverrider (hierarchyFuncs BottomClass) Root_f = Some Bottom_f"
    by (simp add: funcs mostDerivedOverrider_def Bottom_f_def Middle_f_def Root_f_def)
  from C3_method_slot_holds_final_overrider [OF tgt fo wf mem, of exampleIGM] sel wf
  show ?thesis by (simp add: newClassMetadataBuilder_def)
qed

section \<open>Generic metadata templates: results\<close>

lemma addReferenceToType_frame:
  "addReferenceToType ty b = Inr b' \<Longrightarrow> \<exists>c. b' = push_back [c] b"
  by (auto simp: addReferenceToType_def split: sum.splits option.splits)

lemma classBuilderHook_frame:
  "classBuilderHook IGM c h b = Inr b' \<Longrightarrow>
     Target b' = Target b \<and> IsGeneric b' = IsGeneric b \<and> FillOps b' = FillOps b
     \<and> NumGenericWitnesses b' = NumGenericWitnesses b \<and> AddressPoint b' = AddressPoint b
     \<and> HasDependentVWT b' = HasDependentVWT b \<and> DependentVWTPoint b' = DependentVWTPoint b
     \<and> FinalOverriders b' = FinalOverriders b
     \<and> (\<exists>cs. Fields b' = Fields b @ cs)"
  by (induction IGM c h b rule: classBuilderHook.induct)
     (auto dest!: addReferenceToType_frame
           simp: addMethod_def Let_def push_back_def split: option.splits if_splits)

lemma valueTypeBuilderHook_frame:
  "valueTypeBuilderHook IGM d h b = Inr b' \<Longrightarrow>
     Target b' = Target b \<and> IsGeneric b' = IsGeneric b \<and> FillOps b' = FillOps b
     \<and> NumGenericWitnesses b' = NumGenericWitnesses b \<and> AddressPoint b' = AddressPoint b
     \<and> DependentVWTPoint b' = DependentVWTPoint b
     \<and> FinalOverriders b' = FinalOverriders b
     \<and> (\<exists>cs. Fields b' = Fields b @ cs)"
  by (induction IGM d h b rule: valueTypeBuilderHook.induct)
     (auto simp: Let_def push_back_def split: option.splits if_splits DeclKind.splits)

lemma baseHook_frame:
  "baseHook IGM h b = Inr b' \<Longrightarrow>
     Target b' = Target b \<and> IsGeneric b' = IsGeneric b \<and> FillOps b' = FillOps b
     \<and> NumGenericWitnesses b' = NumGenericWitnesses b \<and> AddressPoint b' = AddressPoint b
     \<and> DependentVWTPoint b' = DependentVWTPoint b
     \<and> FinalOverriders b' = FinalOverriders b
     \<and> (\<exists>cs. Fields b' = Fields b @ cs)"
  unfolding baseHook_def
  by (cases "Target b") (auto dest!: classBuilderHook_frame valueTypeBuilderHook_frame)

lemma baseHook_NoteAddressPoint: "baseHook IGM NoteAddressPoint b = Inr b"
  by (cases "Target b") (simp_all add: baseHook_def)

lemma builderHook_generic:
  assumes "builderHook IGM h b = Inr b'" and "IsGeneric b"
  shows "IsGeneric b' \<and> Target b' = Target b \<and> (\<exists>cs. Fields b' = Fields b @ cs)
     \<and> FillOps b' = (if isFillHook h
                       then FillOps b @ [FillOp (NumGenericWitnesses b) (getNextIndex b)]
                       else FillOps b)
     \<and> NumGenericWitnesses b' = (if isFillHook h then Suc (NumGenericWitnesses b)
                                  else NumGenericWitnesses b)
     \<and> AddressPoint b' = (if h = NoteAddressPoint then getNextIndex b else AddressPoint b)"
  using assms
  by (auto simp: builderHook_def recordFillOp_def dest!: baseHook_frame split: if_splits)

lemma superLayout_append:
  "superLayout IGM (xs @ ys) b =
     (case superLayout IGM xs b of Inl err \<Rightarrow> Inl err | Inr b' \<Rightarrow> superLayout IGM ys b')"
  by (induction xs arbitrary: b) (auto split: sum.splits)

lemma upt_shift: "n # [Suc n ..< Suc n + k] = [n ..< n + Suc k]"
proof -
  have "n < n + Suc k" by simp
  from upt_conv_Cons [OF this] show ?thesis by (simp del: upt_Suc)
qed

lemma superLayout_generic:
  assumes "superLayout IGM hooks b = Inr b'" and "IsGeneric b"
  shows "IsGeneric b' \<and> Target b' = Target b \<and> (\<exists>cs. Fields b' = Fields b @ cs)
     \<and> (\<exists>ops. FillOps b' = FillOps b @ ops
            \<and> map FromIndex ops =
                [NumGenericWitnesses b ..<
                   NumGenericWitnesses b + length (filter isFillHook hooks)])
     \<and> NumGenericWitnesses b' = NumGenericWitnesses b + length (filter isFillHook hooks)
     \<and> (NoteAddressPoint \<notin> set hooks \<longrightarrow> AddressPoint b' = AddressPoint b)"
  using assms
proof (induction hooks arbitrary: b)
  case Nil
  then show ?case by simp
next
  case (Cons h hooks)
  from Cons.prems(1) obtain b1 where h: "builderHook IGM h b = Inr b1"
    and rest: "superLayout IGM hooks b1 = Inr b'"
    by (auto split: sum.splits)
  note step = builderHook_generic [OF h Cons.prems(2)]
  from step have gen1: "IsGeneric b1" by simp
  note ih = Cons.IH [OF rest gen1]
  from ih obtain ops where ops: "FillOps b' = FillOps b1 @ ops"
    "map FromIndex ops = [NumGenericWitnesses b1 ..<
        NumGenericWitnesses b1 + length (filter isFillHook hooks)]"
    by blast
  show ?case
  proof (cases "isFillHook h")
    case True
    let ?op = "FillOp (NumGenericWitnesses b) (getNextIndex b)"
    from True step ops(1) have "FillOps b' = FillOps b @ (?op # ops)" by simp
    moreover from True step ops(2) have "map FromIndex (?op # ops) = [NumGenericWitnesses b ..<
              NumGenericWitnesses b + length (filter isFillHook (h # hooks))]"
      using upt_shift [of "NumGenericWitnesses b" "length (filter isFillHook hooks)"]
      by (simp del: upt_Suc)
    ultimately have "FillOps b' = FillOps b @ (?op # ops)"
      and "map FromIndex (?op # ops) = [NumGenericWitnesses b ..<
              NumGenericWitnesses b + length (filter isFillHook (h # hooks))]" by blast+
    then have "\<exists>ops. FillOps b' = FillOps b @ ops \<and> map FromIndex ops =
        [NumGenericWitnesses b ..< NumGenericWitnesses b + length (filter isFillHook (h # hooks))]"
      by blast
    moreover from True have "h \<noteq> NoteAddressPoint" by auto
    ultimately show ?thesis using step ih True by auto
  next
    case False
    with step ops have "\<exists>ops. FillOps b' = FillOps b @ ops \<and> map FromIndex ops =
        [NumGenericWitnesses b ..< NumGenericWitnesses b + length (filter isFillHook (h # hooks))]"
      by auto
    then show ?thesis using step ih False by auto
  qed
qed


lemma reserveHeader_simps:
  "Fields (reserveHeader b) = Fields b @ [NullField, NullField, NullField, NullField, NullField]"
  "IsGeneric (reserveHeader b) = IsGeneric b"
  "FillOps (reserveHeader b) = FillOps b"
  "NumGenericWitnesses (reserveHeader b) = NumGenericWitnesses b"
  "AddressPoint (reserveHeader b) = AddressPoint b"
  "Target (reserveHeader b) = Target b"
  by (simp_all add: reserveHeader_def push_back_def TemplateHeaderFieldCount_def
        numeral_eq_Suc)

lemma layoutDependentVWT_frame:
  "layoutDependentVWT IGM b = Inr b' \<Longrightarrow>
     IsGeneric b' = IsGeneric b \<and> FillOps b' = FillOps b
     \<and> NumGenericWitnesses b' = NumGenericWitnesses b \<and> AddressPoint b' = AddressPoint b
     \<and> (\<exists>cs. Fields b' = Fields b @ cs)"
  by (auto simp: layoutDependentVWT_def addDependentValueWitnessTablePattern_def push_back_def
        split: if_splits BuilderTarget.splits)

lemma fillInHeader_result:
  assumes "fillInHeader IGM b = Inr b'" and "IsGeneric b"
    and "Fields b = h0 # h1 # h2 # h3 # h4 # laidOut"
  shows "\<exists>vwt. Fields b' =
           [FillFunction (FillOps b) vwt,
            ConstantInt_get IGM Int32Ty (length laidOut * getPointerSize IGM),
            ConstantInt_get IGM Int16Ty (NumGenericWitnesses b),
            ConstantInt_get IGM Int16Ty (AddressPoint b * getPointerSize IGM),
            getPrivateDataInit] @ laidOut"
    and "AddressPoint b \<noteq> 0"
    and "IsGeneric b' \<and> FillOps b' = FillOps b
         \<and> NumGenericWitnesses b' = NumGenericWitnesses b \<and> AddressPoint b' = AddressPoint b"
  using assms
  by (auto simp: fillInHeader_def emitFillFunction_def Let_def getNextIndex_def
        TemplateHeaderFieldCount_def
        split: sum.splits if_splits BuilderTarget.splits)

lemma fillInHeader_header:
  assumes "fillInHeader IGM b = Inr b'" and "IsGeneric b"
    and "Fields b = h0 # h1 # h2 # h3 # h4 # laidOut"
  shows "Fields b' =
           [FillFunction (FillOps b)
              (if HasDependentVWT b then Some (DependentVWTPoint b, AddressPoint b) else None),
            ConstantInt_get IGM Int32Ty (length laidOut * getPointerSize IGM),
            ConstantInt_get IGM Int16Ty (NumGenericWitnesses b),
            ConstantInt_get IGM Int16Ty (AddressPoint b * getPointerSize IGM),
            getPrivateDataInit] @ laidOut"
    and "HasDependentVWT b' = HasDependentVWT b \<and> DependentVWTPoint b' = DependentVWTPoint b"
  using assms
  by (auto simp: fillInHeader_def emitFillFunction_def Let_def getNextIndex_def
        TemplateHeaderFieldCount_def
        split: sum.splits if_splits BuilderTarget.splits)

lemma layout_generic_steps:
  assumes "layout IGM hooks b0 = Inr b" and "IsGeneric b0"
  obtains b' b'' where "superLayout IGM hooks (reserveHeader b0) = Inr b'"
    and "layoutDependentVWT IGM b' = Inr b''" and "fillInHeader IGM b'' = Inr b"
  using assms by (auto simp: layout_def split: sum.splits)

lemma layout_generic_result:
  assumes lay: "layout IGM hooks b0 = Inr b" and gen: "IsGeneric b0" and fresh: "Fields b0 = []"
  shows "\<exists>b' vwt laidOut.
           superLayout IGM hooks (reserveHeader b0) = Inr b'
         \<and> Fields b =
             [FillFunction (FillOps b') vwt,
              ConstantInt_get IGM Int32Ty (length laidOut * getPointerSize IGM),
              ConstantInt_get IGM Int16Ty (NumGenericWitnesses b'),
              ConstantInt_get IGM Int16Ty (AddressPoint b' * getPointerSize IGM),
              getPrivateDataInit] @ laidOut
         \<and> FillOps b = FillOps b' \<and> NumGenericWitnesses b = NumGenericWitnesses b'
         \<and> AddressPoint b = AddressPoint b' \<and> AddressPoint b' \<noteq> 0 \<and> IsGeneric b"
proof -
  from lay gen obtain b' b'' where sup: "superLayout IGM hooks (reserveHeader b0) = Inr b'"
    and dep: "layoutDependentVWT IGM b' = Inr b''" and fill: "fillInHeader IGM b'' = Inr b"
    by (rule layout_generic_steps)
  from gen have gen0: "IsGeneric (reserveHeader b0)" by (simp add: reserveHeader_simps)
  note sl = superLayout_generic [OF sup gen0]
  note dl = layoutDependentVWT_frame [OF dep]
  from sl dl fresh obtain laidOut where fields: "Fields b'' =
      NullField # NullField # NullField # NullField # NullField # laidOut"
    by (auto simp: reserveHeader_simps)
  from sl dl have gen'': "IsGeneric b''" by simp
  from fillInHeader_result [OF fill gen'' fields] dl sup show ?thesis by auto
qed


lemma header_update_simps:
  "(x0 # xs)[0 := y] = y # xs"
  "(x0 # x1 # xs)[Suc 0 := y] = x0 # y # xs"
  "(x0 # x1 # xs)[1 := y] = x0 # y # xs"
  "(x0 # x1 # x2 # xs)[2 := y] = x0 # x1 # y # xs"
  "(x0 # x1 # x2 # x3 # xs)[3 := y] = x0 # x1 # x2 # y # xs"
  "(x0 # x1 # x2 # x3 # x4 # xs)[4 := y] = x0 # x1 # x2 # x3 # y # xs"
  by (simp_all add: eval_nat_numeral)

lemma replicate_5: "replicate 5 x = [x, x, x, x, x]"
  by (simp add: eval_nat_numeral)

lemmas builder_defs =
  layout_def reserveHeader_def builderHook_def baseHook_def push_back_def recordFillOp_def
  getNextIndex_def TemplateHeaderFieldCount_def layoutDependentVWT_def
  addDependentValueWitnessTablePattern_def fillInHeader_def emitFillFunction_def
  ConstantInt_get_def getPrivateDataInit_def newValueTypeMetadataBuilder_def
  newClassMetadataBuilder_def Let_def header_update_simps replicate_5

lemma pair_layout:
  "\<exists>b. layout exampleIGM pairLayout (newValueTypeMetadataBuilder True PairDecl) = Inr b
     \<and> IsGeneric b \<and> AddressPoint b = 1 \<and> length (Fields b) = 14"
  by (simp add: builder_defs exampleIGM_def PairDecl_def pairLayout_def)

lemma pair_layout_state:
  "\<exists>b. layout exampleIGM pairLayout (newValueTypeMetadataBuilder True PairDecl) = Inr b
     \<and> FillOps b = [FillOp 0 4, FillOp 1 5] \<and> NumGenericWitnesses b = 2
     \<and> AddressPoint b = 1 \<and> HasDependentVWT b \<and> DependentVWTPoint b = 6
     \<and> length (Fields b) = 14 \<and> IsGeneric b"
  by (simp add: builder_defs exampleIGM_def PairDecl_def pairLayout_def)

text \<open>
  C7. A template build records one fill operation per call of a generic-argument or
  generic-witness-table hook of the traversal: their number is the number of these calls,
  and their argument indices are \<open>0, 1, 2, ...\<close> in the order of the calls;
  \<open>fillOp_destination\<close> below gives the destination of each.
\<close>

theorem C7_one_fill_op_per_generic_hook:
  assumes "layout IGM hooks b0 = Inr b" and "IsGeneric b0" and "Fields b0 = []"
    and "FillOps b0 = []" and "NumGenericWitnesses b0 = 0"
  shows "length (FillOps b) = length (filter isFillHook hooks)
       \<and> map FromIndex (FillOps b) = [0 ..< length (filter isFillHook hooks)]
       \<and> NumGenericWitnesses b = length (filter isFillHook hooks)"
proof -
  from layout_generic_result [OF assms(1-3)] obtain b'
    where sup: "superLayout IGM hooks (reserveHeader b0) = Inr b'"
      and same: "FillOps b = FillOps b'" "NumGenericWitnesses b = NumGenericWitnesses b'"
    by blast
  from assms(2) have "IsGeneric (reserveHeader b0)" by (simp add: reserveHeader_simps)
  from superLayout_generic [OF sup this] assms(4,5)
  have seq: "map FromIndex (FillOps b') = [0 ..< length (filter isFillHook hooks)]"
    and num: "NumGenericWitnesses b' = length (filter isFillHook hooks)"
    by (auto simp: reserveHeader_simps)
  from arg_cong [OF seq, of length]
  have "length (FillOps b') = length (filter isFillHook hooks)" by simp
  with seq num same show ?thesis by simp
qed

text \<open>
  C6. In a built template, the address-point field of the header is the index at which
  the traversal noted the address point, counted after the header, times the pointer
  size, and the size field is the final number of fields after the header times the
  pointer size; the two fields are 16 and 32 bits wide, and the products fit.
\<close>

theorem C6_header_size_and_address_point:
  assumes "layout IGM (pre @ NoteAddressPoint # post) b0 = Inr b"
    and "IsGeneric b0" and "Fields b0 = []" and "NoteAddressPoint \<notin> set post"
    and "getNextIndex b * getPointerSize IGM < 2 ^ 32"
    and "AddressPoint b * getPointerSize IGM < 2 ^ 16"
  shows "\<exists>b1. superLayout IGM pre (reserveHeader b0) = Inr b1
           \<and> Fields b ! 3 = ConstantInt Int16Ty (getNextIndex b1 * getPointerSize IGM)
           \<and> Fields b ! 1 = ConstantInt Int32Ty (getNextIndex b * getPointerSize IGM)"
proof -
  from layout_generic_result [OF assms(1-3)] obtain b' vwt laidOut
    where sup: "superLayout IGM (pre @ NoteAddressPoint # post) (reserveHeader b0) = Inr b'"
      and fields: "Fields b =
             [FillFunction (FillOps b') vwt,
              ConstantInt_get IGM Int32Ty (length laidOut * getPointerSize IGM),
              ConstantInt_get IGM Int16Ty (NumGenericWitnesses b'),
              ConstantInt_get IGM Int16Ty (AddressPoint b' * getPointerSize IGM),
              getPrivateDataInit] @ laidOut"
      and ap: "AddressPoint b = AddressPoint b'" and gen: "IsGeneric b"
    by blast
  from assms(2) have gen0: "IsGeneric (reserveHeader b0)" by (simp add: reserveHeader_simps)
  from sup obtain b1 b2 where pre: "superLayout IGM pre (reserveHeader b0) = Inr b1"
    and noted: "builderHook IGM NoteAddressPoint b1 = Inr b2"
    and post: "superLayout IGM post b2 = Inr b'"
    by (auto simp: superLayout_append split: sum.splits)
  from superLayout_generic [OF pre gen0] have gen1: "IsGeneric b1" by simp
  from builderHook_generic [OF noted gen1] have gen2: "IsGeneric b2"
    and ap2: "AddressPoint b2 = getNextIndex b1" by simp_all
  from superLayout_generic [OF post gen2] assms(4) ap2
  have ap': "AddressPoint b' = getNextIndex b1" by simp
  from fields gen have final: "getNextIndex b = length laidOut"
    by (simp add: getNextIndex_def TemplateHeaderFieldCount_def)
  from fields ap ap' final assms(5,6) have
    "Fields b ! 3 = ConstantInt Int16Ty (getNextIndex b1 * getPointerSize IGM)"
    "Fields b ! 1 = ConstantInt Int32Ty (getNextIndex b * getPointerSize IGM)"
    by (simp_all add: ConstantInt_get_def)
  with pre show ?thesis by blast
qed

text \<open>
  C5 (as amended). The header of a built template is five fields in a fixed order, placed
  before the fields that the traversal laid out (and the dependent value witness table
  after them): the fill function of the recorded fill operations, a pointer; the metadata
  size, the number of fields after the header times the pointer size, as a 32-bit
  integer; the argument count, the number of generic witnesses, as a 16-bit integer; the
  address-point offset, the address point times the pointer size, as a 16-bit integer;
  and the private data, eight null pointers. For a pointer size \<open>p\<close> the five fields take
  \<open>p\<close>, 4, 2, 2 and \<open>8 * p\<close> bytes.
\<close>

theorem C5_template_header_fields:
  assumes lay: "layout IGM hooks b0 = Inr b" and gen: "IsGeneric b0" and fresh: "Fields b0 = []"
  shows "\<exists>b' tail.
           superLayout IGM hooks (reserveHeader b0) = Inr b'
         \<and> Fields b =
             [FillFunction (FillOps b)
                (if HasDependentVWT b then Some (DependentVWTPoint b, AddressPoint b) else None),
              ConstantInt Int32Ty ((getNextIndex b * getPointerSize IGM) mod 2 ^ 32),
              ConstantInt Int16Ty (NumGenericWitnesses b mod 2 ^ 16),
              ConstantInt Int16Ty ((AddressPoint b * getPointerSize IGM) mod 2 ^ 16),
              ConstantArray Int8PtrTy (replicate 8 (ConstantPointerNull Int8PtrTy))]
             @ drop 5 (Fields b') @ tail
         \<and> getNextIndex b = length (drop 5 (Fields b') @ tail)
         \<and> FillOps b = FillOps b' \<and> NumGenericWitnesses b = NumGenericWitnesses b'
         \<and> AddressPoint b = AddressPoint b'
         \<and> map (storeSize (getPointerSize IGM)) (take 5 (Fields b)) =
             [getPointerSize IGM, 4, 2, 2, 8 * getPointerSize IGM]"
proof -
  from lay gen obtain b' b'' where sup: "superLayout IGM hooks (reserveHeader b0) = Inr b'"
    and dep: "layoutDependentVWT IGM b' = Inr b''" and fill: "fillInHeader IGM b'' = Inr b"
    by (rule layout_generic_steps)
  from gen have gen0: "IsGeneric (reserveHeader b0)" by (simp add: reserveHeader_simps)
  note sl = superLayout_generic [OF sup gen0]
  note dl = layoutDependentVWT_frame [OF dep]
  from sl fresh obtain cs where cs: "Fields b' =
      NullField # NullField # NullField # NullField # NullField # cs"
    by (auto simp: reserveHeader_simps)
  from dl cs obtain tail where fields: "Fields b'' =
      NullField # NullField # NullField # NullField # NullField # (cs @ tail)"
    by auto
  from sl dl have gen'': "IsGeneric b''" by simp
  note hdr = fillInHeader_header [OF fill gen'' fields]
  note res = fillInHeader_result [OF fill gen'' fields]
  from cs have drop: "drop 5 (Fields b') = cs" by simp
  from hdr(1) res(3) have final: "getNextIndex b = length (cs @ tail)"
    by (simp add: getNextIndex_def TemplateHeaderFieldCount_def)
  from hdr res(3) dl have same: "FillOps b = FillOps b'"
    "NumGenericWitnesses b = NumGenericWitnesses b'" "AddressPoint b = AddressPoint b'"
    "FillOps b = FillOps b''" "NumGenericWitnesses b = NumGenericWitnesses b''"
    "AddressPoint b = AddressPoint b''" "HasDependentVWT b = HasDependentVWT b''"
    "DependentVWTPoint b = DependentVWTPoint b''"
    by simp_all
  from hdr(1) have fb: "Fields b =
             [FillFunction (FillOps b)
                (if HasDependentVWT b then Some (DependentVWTPoint b, AddressPoint b) else None),
              ConstantInt Int32Ty ((getNextIndex b * getPointerSize IGM) mod 2 ^ 32),
              ConstantInt Int16Ty (NumGenericWitnesses b mod 2 ^ 16),
              ConstantInt Int16Ty ((AddressPoint b * getPointerSize IGM) mod 2 ^ 16),
              ConstantArray Int8PtrTy (replicate 8 (ConstantPointerNull Int8PtrTy))]
             @ cs @ tail"
    unfolding same(4-8) [symmetric] final
    by (simp add: ConstantInt_get_def getPrivateDataInit_def)
  then have sizes: "map (storeSize (getPointerSize IGM)) (take 5 (Fields b)) =
             [getPointerSize IGM, 4, 2, 2, 8 * getPointerSize IGM]"
    by (simp add: sum_list_replicate)
  show ?thesis
  proof (intro exI conjI)
    show "superLayout IGM hooks (reserveHeader b0) = Inr b'" by (rule sup)
    show "Fields b =
             [FillFunction (FillOps b)
                (if HasDependentVWT b then Some (DependentVWTPoint b, AddressPoint b) else None),
              ConstantInt Int32Ty ((getNextIndex b * getPointerSize IGM) mod 2 ^ 32),
              ConstantInt Int16Ty (NumGenericWitnesses b mod 2 ^ 16),
              ConstantInt Int16Ty ((AddressPoint b * getPointerSize IGM) mod 2 ^ 16),
              ConstantArray Int8PtrTy (replicate 8 (ConstantPointerNull Int8PtrTy))]
             @ drop 5 (Fields b') @ tail"
      unfolding drop by (rule fb)
    show "getNextIndex b = length (drop 5 (Fields b') @ tail)"
      unfolding drop by (rule final)
    show "FillOps b = FillOps b'" by (rule same(1))
    show "NumGenericWitnesses b = NumGenericWitnesses b'" by (rule same(2))
    show "AddressPoint b = AddressPoint b'" by (rule same(3))
    show "map (storeSize (getPointerSize IGM)) (take 5 (Fields b)) =
             [getPointerSize IGM, 4, 2, 2, 8 * getPointerSize IGM]" by (rule sizes)
  qed
qed

text \<open>
  The header fields are not all one machine word wide: in the template of \<open>PairDecl\<close>
  for a 64-bit target they take 8, 4, 2, 2 and 64 bytes.
\<close>

theorem C5_header_fields_not_word_sized_counterexample:
  "getPointerSize exampleIGM = 8
   \<and> (case layout exampleIGM pairLayout (newValueTypeMetadataBuilder True PairDecl) of
         Inl err \<Rightarrow> False
       | Inr b \<Rightarrow> map (storeSize (getPointerSize exampleIGM)) (take 5 (Fields b))
                   = [8, 4, 2, 2, 64])"
  by (simp add: builder_defs exampleIGM_def PairDecl_def pairLayout_def sum_list_replicate)


lemma fillOp_destination:
  assumes "layout IGM (pre @ h # post) b0 = Inr b" and "isFillHook h"
    and "IsGeneric b0" and "Fields b0 = []" and "FillOps b0 = []"
    and "NumGenericWitnesses b0 = 0"
  shows "\<exists>b1. superLayout IGM pre (reserveHeader b0) = Inr b1
           \<and> FillOps b ! length (filter isFillHook pre)
               = FillOp (length (filter isFillHook pre)) (getNextIndex b1)"
proof -
  from layout_generic_result [OF assms(1,3,4)] obtain b'
    where sup: "superLayout IGM (pre @ h # post) (reserveHeader b0) = Inr b'"
      and same: "FillOps b = FillOps b'"
    by blast
  from assms(3) have gen0: "IsGeneric (reserveHeader b0)" by (simp add: reserveHeader_simps)
  from sup obtain b1 b2 where pre: "superLayout IGM pre (reserveHeader b0) = Inr b1"
    and step: "builderHook IGM h b1 = Inr b2"
    and post: "superLayout IGM post b2 = Inr b'"
    by (auto simp: superLayout_append split: sum.splits)
  from superLayout_generic [OF pre gen0] assms(5,6)
  have gen1: "IsGeneric b1"
    and ops1: "map FromIndex (FillOps b1) = [0 ..< length (filter isFillHook pre)]"
    and num1: "NumGenericWitnesses b1 = length (filter isFillHook pre)"
    by (auto simp: reserveHeader_simps)
  from arg_cong [OF ops1, of length]
  have len1: "length (FillOps b1) = length (filter isFillHook pre)" by simp
  from builderHook_generic [OF step gen1] assms(2) num1
  have gen2: "IsGeneric b2"
    and ops2: "FillOps b2 = FillOps b1 @
                 [FillOp (length (filter isFillHook pre)) (getNextIndex b1)]"
    by simp_all
  from superLayout_generic [OF post gen2] obtain ops where "FillOps b' = FillOps b2 @ ops"
    by blast
  with ops2 len1 same have "FillOps b ! length (filter isFillHook pre)
      = FillOp (length (filter isFillHook pre)) (getNextIndex b1)"
    by (simp add: nth_append)
  with pre show ?thesis by blast
qed

text \<open>
  The template of \<open>PairDecl\<close>: two fill operations, for \<open>T\<close> and for its
  conformance to \<open>P\<close>.
\<close>

theorem C7_one_fill_op_per_generic_hook_witness:
  "\<exists>b. layout exampleIGM pairLayout (newValueTypeMetadataBuilder True PairDecl) = Inr b
      \<and> length (FillOps b) = 2 \<and> map FromIndex (FillOps b) = [0, 1]
      \<and> NumGenericWitnesses b = 2"
proof -
  let ?b0 = "newValueTypeMetadataBuilder True PairDecl"
  from pair_layout obtain b where lay: "layout exampleIGM pairLayout ?b0 = Inr b" by blast
  have fresh: "IsGeneric ?b0" "Fields ?b0 = []" "FillOps ?b0 = []"
    "NumGenericWitnesses ?b0 = 0"
    by (simp_all add: newValueTypeMetadataBuilder_def)
  have hooks: "length (filter isFillHook pairLayout) = 2"
    by (simp add: pairLayout_def)
  have "[0 ..< 2] = [0, Suc 0]" by (simp add: eval_nat_numeral)
  with C7_one_fill_op_per_generic_hook [OF lay fresh] hooks lay show ?thesis by auto
qed

text \<open>
  The template of \<open>PairDecl\<close>: the address point is noted at index 1 and nine fields
  follow the header.
\<close>

theorem C6_header_size_and_address_point_witness:
  "\<exists>b. layout exampleIGM pairLayout (newValueTypeMetadataBuilder True PairDecl) = Inr b
      \<and> Fields b ! 3 = ConstantInt Int16Ty 8 \<and> Fields b ! 1 = ConstantInt Int32Ty 72"
proof -
  let ?b0 = "newValueTypeMetadataBuilder True PairDecl"
  let ?post = "[AddMetadataFlags, AddNominalTypeDescriptor, AddParentMetadataRef None,
      AddGenericArgument ''T'' None, AddGenericWitnessTable ''T'' ''P'' None]"
  from pair_layout obtain b where lay: "layout exampleIGM pairLayout ?b0 = Inr b"
    and b: "IsGeneric b" "AddressPoint b = 1" "length (Fields b) = 14" by blast
  from lay have lay': "layout exampleIGM ([AddValueWitnessTable] @ NoteAddressPoint # ?post) ?b0
      = Inr b" by (simp add: pairLayout_def)
  have fresh: "IsGeneric ?b0" "Fields ?b0 = []"
    by (simp_all add: newValueTypeMetadataBuilder_def)
  have last: "NoteAddressPoint \<notin> set ?post" by simp
  from b have fits: "getNextIndex b * getPointerSize exampleIGM < 2 ^ 32"
    "AddressPoint b * getPointerSize exampleIGM < 2 ^ 16"
    by (simp_all add: getNextIndex_def TemplateHeaderFieldCount_def exampleIGM_def)
  have pre: "\<exists>b1. superLayout exampleIGM [AddValueWitnessTable] (reserveHeader ?b0) = Inr b1
      \<and> getNextIndex b1 = 1"
    by (simp add: builder_defs exampleIGM_def PairDecl_def)
  from C6_header_size_and_address_point [OF lay' fresh last fits] pre b lay
  show ?thesis
    by (auto simp: getNextIndex_def TemplateHeaderFieldCount_def exampleIGM_def)
qed

text \<open>
  The header of the template of \<open>PairDecl\<close>: the fill function of its two fill
  operations and of its dependent value witness table, a size of 72 bytes, two
  arguments, the address point at byte 8, and the private data.
\<close>

theorem C5_template_header_fields_witness:
  "\<exists>b. layout exampleIGM pairLayout (newValueTypeMetadataBuilder True PairDecl) = Inr b
      \<and> take 5 (Fields b) =
          [FillFunction [FillOp 0 4, FillOp 1 5] (Some (6, 1)),
           ConstantInt Int32Ty 72, ConstantInt Int16Ty 2, ConstantInt Int16Ty 8,
           ConstantArray Int8PtrTy (replicate 8 (ConstantPointerNull Int8PtrTy))]
      \<and> length (drop 5 (Fields b)) = 9
      \<and> map (storeSize 8) (take 5 (Fields b)) = [8, 4, 2, 2, 64]"
proof -
  let ?b0 = "newValueTypeMetadataBuilder True PairDecl"
  from pair_layout_state obtain b where lay: "layout exampleIGM pairLayout ?b0 = Inr b"
    and st: "FillOps b = [FillOp 0 4, FillOp 1 5]" "NumGenericWitnesses b = 2"
      "AddressPoint b = 1" "HasDependentVWT b" "DependentVWTPoint b = 6"
      "length (Fields b) = 14" "IsGeneric b"
    by blast
  have fresh: "IsGeneric ?b0" "Fields ?b0 = []"
    by (simp_all add: newValueTypeMetadataBuilder_def)
  have p: "getPointerSize exampleIGM = 8" by (simp add: exampleIGM_def)
  from st have n: "getNextIndex b = 9"
    by (simp add: getNextIndex_def TemplateHeaderFieldCount_def)
  note header = C5_template_header_fields [OF lay fresh]
  from header have fields: "take 5 (Fields b) =
             [FillFunction (FillOps b)
                (if HasDependentVWT b then Some (DependentVWTPoint b, AddressPoint b) else None),
              ConstantInt Int32Ty ((getNextIndex b * getPointerSize exampleIGM) mod 2 ^ 32),
              ConstantInt Int16Ty (NumGenericWitnesses b mod 2 ^ 16),
              ConstantInt Int16Ty ((AddressPoint b * getPointerSize exampleIGM) mod 2 ^ 16),
              ConstantArray Int8PtrTy (replicate 8 (ConstantPointerNull Int8PtrTy))]"
    by (elim exE conjE) simp
  from header have sizes: "map (storeSize (getPointerSize exampleIGM)) (take 5 (Fields b)) =
             [getPointerSize exampleIGM, 4, 2, 2, 8 * getPointerSize exampleIGM]"
    by (elim exE conjE)
  show ?thesis
  proof (intro exI conjI)
    show "layout exampleIGM pairLayout ?b0 = Inr b" by (rule lay)
    from fields st n p show "take 5 (Fields b) =
          [FillFunction [FillOp 0 4, FillOp 1 5] (Some (6, 1)),
           ConstantInt Int32Ty 72, ConstantInt Int16Ty 2, ConstantInt Int16Ty 8,
           ConstantArray Int8PtrTy (replicate 8 (ConstantPointerNull Int8PtrTy))]"
      by simp
    from st(6) show "length (drop 5 (Fields b)) = 9" by simp
    from sizes p show "map (storeSize 8) (take 5 (Fields b)) = [8, 4, 2, 2, 64]"
      by simp
  qed
qed


section \<open>Field locators: results\<close>

lemma targetTest_NoteAddressPoint: "targetTest searcher NoteAddressPoint = None"
  by (cases searcher) simp_all

lemma searcherLayout_append:
  "searcherLayout scan searcher (xs @ ys) s =
     (case searcherLayout scan searcher xs s of
        Inl err \<Rightarrow> Inl err
      | Inr s' \<Rightarrow> searcherLayout scan searcher ys s')"
  by (induction xs arbitrary: s) (auto split: sum.splits)

lemma searcherHook_error:
  "searcherHook scan searcher h s = Inl err \<Longrightarrow> err = AssertionFailed"
  by (auto simp: searcherHook_def setTargetIndex_def split: option.splits if_splits sum.splits)

lemma searcherLayout_error:
  "searcherLayout scan searcher hs s = Inl err \<Longrightarrow> err = AssertionFailed"
  by (induction hs arbitrary: s) (auto split: sum.splits dest: searcherHook_error)

lemma searcherHook_no_target:
  assumes "\<not> isTarget searcher h"
  shows "\<exists>s'. searcherHook scan searcher h s = Inr s'
           \<and> TargetIndex s' = TargetIndex s
           \<and> NextIndex s' = NextIndex s + advance scan searcher h
           \<and> SearcherAddressPoint s' =
               (if h = NoteAddressPoint then NextIndex s else SearcherAddressPoint s)"
  using assms
  by (auto simp: searcherHook_def isTarget_def advance_def targetTest_NoteAddressPoint
           split: option.splits)

lemma searcherHook_success:
  assumes "searcherHook scan searcher h s = Inr s'"
  shows "NextIndex s' = NextIndex s + advance scan searcher h
       \<and> SearcherAddressPoint s' =
           (if h = NoteAddressPoint then NextIndex s else SearcherAddressPoint s)"
  using assms
  by (auto simp: searcherHook_def advance_def setTargetIndex_def targetTest_NoteAddressPoint
           split: option.splits if_splits sum.splits)

lemma searcherHook_target:
  assumes "isTarget searcher h" and "TargetIndex s = InvalidIndex"
  shows "\<exists>s'. searcherHook scan searcher h s = Inr s' \<and> TargetIndex s' = NextIndex s"
  using assms by (auto simp: searcherHook_def isTarget_def setTargetIndex_def)

lemma searcherLayout_success:
  "searcherLayout scan searcher hs s = Inr s' \<Longrightarrow>
     NextIndex s' = NextIndex s + slotAfter scan searcher hs
     \<and> (NoteAddressPoint \<notin> set hs \<longrightarrow> SearcherAddressPoint s' = SearcherAddressPoint s)"
proof (induction hs arbitrary: s)
  case Nil
  then show ?case by (simp add: slotAfter_def)
next
  case (Cons h hs)
  from Cons.prems obtain s1 where h: "searcherHook scan searcher h s = Inr s1"
    and rest: "searcherLayout scan searcher hs s1 = Inr s'"
    by (auto split: sum.splits)
  from searcherHook_success [OF h] Cons.IH [OF rest] show ?case
    by (auto simp: slotAfter_def)
qed

lemma searcherLayout_no_target:
  "\<forall>h\<in>set hs. \<not> isTarget searcher h \<Longrightarrow>
     \<exists>s'. searcherLayout scan searcher hs s = Inr s' \<and> TargetIndex s' = TargetIndex s"
proof (induction hs arbitrary: s)
  case Nil
  then show ?case by simp
next
  case (Cons h hs)
  from Cons.prems have "\<not> isTarget searcher h" by simp
  from searcherHook_no_target [OF this, of scan s] obtain s1
    where s1: "searcherHook scan searcher h s = Inr s1" "TargetIndex s1 = TargetIndex s"
    by blast
  from Cons.IH [of s1] Cons.prems obtain s'
    where "searcherLayout scan searcher hs s1 = Inr s'" "TargetIndex s' = TargetIndex s1"
    by auto
  with s1 show ?case by simp
qed

lemma searcherLayout_address_point:
  assumes "searcherLayout scan searcher (before @ NoteAddressPoint # after) s = Inr s'"
    and "NoteAddressPoint \<notin> set after"
  shows "SearcherAddressPoint s' = NextIndex s + slotAfter scan searcher before"
proof -
  from assms(1) obtain s1 s2 where b: "searcherLayout scan searcher before s = Inr s1"
    and n: "searcherHook scan searcher NoteAddressPoint s1 = Inr s2"
    and a: "searcherLayout scan searcher after s2 = Inr s'"
    by (auto simp: searcherLayout_append split: sum.splits)
  from searcherLayout_success [OF b] searcherHook_success [OF n]
       searcherLayout_success [OF a] assms(2)
  show ?thesis by simp
qed

lemma searcherLayout_one_target:
  assumes "isTarget searcher t" and "\<forall>h\<in>set pre \<union> set post. \<not> isTarget searcher h"
    and "TargetIndex s = InvalidIndex"
  shows "\<exists>s'. searcherLayout scan searcher (pre @ t # post) s = Inr s'
           \<and> TargetIndex s' = NextIndex s + slotAfter scan searcher pre"
proof -
  from assms(2) have np: "\<forall>h\<in>set pre. \<not> isTarget searcher h"
    and npost: "\<forall>h\<in>set post. \<not> isTarget searcher h" by auto
  from searcherLayout_no_target [OF np, of scan s] obtain s1
    where s1: "searcherLayout scan searcher pre s = Inr s1" "TargetIndex s1 = TargetIndex s"
    by blast
  from searcherLayout_success [OF s1(1)]
  have next1: "NextIndex s1 = NextIndex s + slotAfter scan searcher pre" by simp
  from s1(2) assms(3) have "TargetIndex s1 = InvalidIndex" by simp
  from searcherHook_target [OF assms(1) this, of scan] obtain s2
    where s2: "searcherHook scan searcher t s1 = Inr s2" "TargetIndex s2 = NextIndex s1"
    by blast
  from searcherLayout_no_target [OF npost, of scan s2] obtain s'
    where s': "searcherLayout scan searcher post s2 = Inr s'" "TargetIndex s' = TargetIndex s2"
    by blast
  from s1 s2 s' next1 show ?thesis
    by (simp add: searcherLayout_append)
qed

text \<open>
  C4. For every searcher, scanner and traversal: when exactly one hook of the traversal is
  the target, reached at index \<open>slotAfter pre\<close>, and the address point is noted, for
  the last time at index \<open>slotAfter before\<close>, the locator returns the target index minus
  the address-point index (neither index being \<^verbatim>\<open>~0U\<close>, which stands for "not set");
  when no hook is the target, or the address point is never noted, the locator aborts on
  an assertion. The result is the 32-bit \<^verbatim>\<open>int\<close> of the source; \<open>sint_offset\<close> below reads
  it as the signed difference, which is negative when the target precedes the address
  point.
\<close>

theorem C4_locator_offset:
  "(hooks = pre @ t # post \<and> isTarget searcher t
      \<and> (\<forall>h\<in>set pre \<union> set post. \<not> isTarget searcher h)
      \<and> hooks = before @ NoteAddressPoint # after \<and> NoteAddressPoint \<notin> set after
      \<and> slotAfter scan searcher pre \<noteq> InvalidIndex
      \<and> slotAfter scan searcher before \<noteq> InvalidIndex
    \<longrightarrow> getTargetIndex scan searcher hooks
          = Inr (slotAfter scan searcher pre - slotAfter scan searcher before))
   \<and> ((\<forall>h\<in>set hooks. \<not> isTarget searcher h) \<or> NoteAddressPoint \<notin> set hooks
    \<longrightarrow> getTargetIndex scan searcher hooks = Inl AssertionFailed)"
proof (intro conjI impI)
  assume a: "hooks = pre @ t # post \<and> isTarget searcher t
      \<and> (\<forall>h\<in>set pre \<union> set post. \<not> isTarget searcher h)
      \<and> hooks = before @ NoteAddressPoint # after \<and> NoteAddressPoint \<notin> set after
      \<and> slotAfter scan searcher pre \<noteq> InvalidIndex
      \<and> slotAfter scan searcher before \<noteq> InvalidIndex"
  then have h1: "hooks = pre @ t # post" and t: "isTarget searcher t"
    and others: "\<forall>h\<in>set pre \<union> set post. \<not> isTarget searcher h"
    and h2: "hooks = before @ NoteAddressPoint # after"
    and last: "NoteAddressPoint \<notin> set after"
    and valid: "slotAfter scan searcher pre \<noteq> InvalidIndex"
      "slotAfter scan searcher before \<noteq> InvalidIndex"
    by blast+
  have init: "TargetIndex newMetadataSearcher = InvalidIndex"
    "NextIndex newMetadataSearcher = 0"
    by (simp_all add: newMetadataSearcher_def)
  from searcherLayout_one_target [OF t others init(1), of scan] init(2)
  obtain s' where run: "searcherLayout scan searcher (pre @ t # post) newMetadataSearcher = Inr s'"
    and tgt: "TargetIndex s' = slotAfter scan searcher pre"
    by auto
  from run have run': "searcherLayout scan searcher hooks newMetadataSearcher = Inr s'"
    unfolding h1 .
  then have "searcherLayout scan searcher (before @ NoteAddressPoint # after)
      newMetadataSearcher = Inr s'" unfolding h2 .
  from searcherLayout_address_point [OF this last] init(2)
  have ap: "SearcherAddressPoint s' = slotAfter scan searcher before" by simp
  from run' tgt ap valid init(1)
  show "getTargetIndex scan searcher hooks
          = Inr (slotAfter scan searcher pre - slotAfter scan searcher before)"
    by (simp add: getTargetIndex_def Let_def)
next
  assume a: "(\<forall>h\<in>set hooks. \<not> isTarget searcher h) \<or> NoteAddressPoint \<notin> set hooks"
  have init: "TargetIndex newMetadataSearcher = InvalidIndex"
    "SearcherAddressPoint newMetadataSearcher = InvalidIndex"
    by (simp_all add: newMetadataSearcher_def)
  show "getTargetIndex scan searcher hooks = Inl AssertionFailed"
  proof (cases "searcherLayout scan searcher hooks newMetadataSearcher")
    case (Inl err)
    with searcherLayout_error [OF Inl] show ?thesis
      by (simp add: getTargetIndex_def Let_def)
  next
    case (Inr s')
    from a show ?thesis
    proof
      assume "\<forall>h\<in>set hooks. \<not> isTarget searcher h"
      from searcherLayout_no_target [OF this, of scan newMetadataSearcher] Inr init
      have "TargetIndex s' = InvalidIndex" by auto
      with Inr show ?thesis by (simp add: getTargetIndex_def Let_def)
    next
      assume "NoteAddressPoint \<notin> set hooks"
      with searcherLayout_success [OF Inr] init
      have "SearcherAddressPoint s' = InvalidIndex" by simp
      with Inr show ?thesis by (simp add: getTargetIndex_def Let_def)
    qed
  qed
qed

text \<open>
  Read as a signed integer, the difference of two indices below \<open>2 ^ 31\<close> is their
  difference as integers.
\<close>

lemma sint_offset:
  fixes x y :: "32 word"
  assumes "uint x < 2 ^ 31" and "uint y < 2 ^ 31"
  shows "sint (x - y) = uint x - uint y"
proof -
  have x0: "0 \<le> uint x" and y0: "0 \<le> uint y" by simp_all
  have p: "(0::int) < 2 ^ 31" by simp
  from assms(1) x0 p have "signed_take_bit 31 (uint x) = uint x"
    by (intro signed_take_bit_int_eq_self) linarith+
  then have sx: "sint x = uint x" by (simp add: sint_uint)
  from assms(2) y0 p have "signed_take_bit 31 (uint y) = uint y"
    by (intro signed_take_bit_int_eq_self) linarith+
  then have sy: "sint y = uint y" by (simp add: sint_uint)
  from assms x0 y0 have "signed_take_bit 31 (uint x - uint y) = uint x - uint y"
    by (intro signed_take_bit_int_eq_self) linarith+
  with sx sy show ?thesis by (simp add: sint_word_diff)
qed


lemmas searcher_defs =
  exampleScan_def InnerClassDecl_def InnerStructDecl_def innerClassLayout_def
  slotAfter_def advance_def isTarget_def InvalidIndex_def

text \<open>
  The parent of \<open>InnerClassDecl\<close> is found two fields before the address point, its
  field \<open>x\<close> at the address point; a field \<open>y\<close> that is not in the layout, and a layout
  that never notes the address point, abort.
\<close>

theorem C4_locator_offset_witness:
  "getTargetIndex exampleScan (FindClassParentIndex InnerClassDecl)
       (innerClassLayout InnerClassDecl) = Inr (- 2)
   \<and> sint (- 2 :: 32 word) = - 2
   \<and> getTargetIndex exampleScan (FindClassFieldOffset InnerClassDecl ''x'')
       (innerClassLayout InnerClassDecl) = Inr 0
   \<and> getTargetIndex exampleScan (FindClassFieldOffset InnerClassDecl ''y'')
       (innerClassLayout InnerClassDecl) = Inl AssertionFailed
   \<and> getTargetIndex exampleScan (FindClassParentIndex InnerClassDecl)
       [AddMetadataFlags, AddParentMetadataRef (Some InnerClassDecl)] = Inl AssertionFailed"
proof (intro conjI)
  let ?hooks = "innerClassLayout InnerClassDecl"
  let ?pre = "[AddMetadataFlags, AddValueWitnessTable, AddDestructorFunction]"
  let ?t = "AddParentMetadataRef (Some InnerClassDecl)"
  let ?post = "[AddSuperClass, NoteAddressPoint, AddFieldOffset ''x'']"
  let ?before = "[AddMetadataFlags, AddValueWitnessTable, AddDestructorFunction, ?t,
      AddSuperClass]"
  let ?after = "[AddFieldOffset ''x'']"
  have "?hooks = ?pre @ ?t # ?post \<and> isTarget (FindClassParentIndex InnerClassDecl) ?t
      \<and> (\<forall>h\<in>set ?pre \<union> set ?post. \<not> isTarget (FindClassParentIndex InnerClassDecl) h)
      \<and> ?hooks = ?before @ NoteAddressPoint # ?after \<and> NoteAddressPoint \<notin> set ?after
      \<and> slotAfter exampleScan (FindClassParentIndex InnerClassDecl) ?pre \<noteq> InvalidIndex
      \<and> slotAfter exampleScan (FindClassParentIndex InnerClassDecl) ?before \<noteq> InvalidIndex"
    by (simp add: searcher_defs)
  with C4_locator_offset [of ?hooks ?pre ?t ?post "FindClassParentIndex InnerClassDecl"
      ?before ?after exampleScan]
  show "getTargetIndex exampleScan (FindClassParentIndex InnerClassDecl) ?hooks = Inr (- 2)"
    by (simp add: searcher_defs)
next
  show "sint (- 2 :: 32 word) = - 2" by simp
next
  let ?hooks = "innerClassLayout InnerClassDecl"
  let ?s = "FindClassFieldOffset InnerClassDecl ''x''"
  let ?pre = "[AddMetadataFlags, AddValueWitnessTable, AddDestructorFunction,
      AddParentMetadataRef (Some InnerClassDecl), AddSuperClass, NoteAddressPoint]"
  let ?before = "[AddMetadataFlags, AddValueWitnessTable, AddDestructorFunction,
      AddParentMetadataRef (Some InnerClassDecl), AddSuperClass]"
  have "?hooks = ?pre @ AddFieldOffset ''x'' # [] \<and> isTarget ?s (AddFieldOffset ''x'')
      \<and> (\<forall>h\<in>set ?pre \<union> set []. \<not> isTarget ?s h)
      \<and> ?hooks = ?before @ NoteAddressPoint # [AddFieldOffset ''x'']
      \<and> NoteAddressPoint \<notin> set [AddFieldOffset ''x'']
      \<and> slotAfter exampleScan ?s ?pre \<noteq> InvalidIndex
      \<and> slotAfter exampleScan ?s ?before \<noteq> InvalidIndex"
    by (simp add: searcher_defs)
  with C4_locator_offset [of ?hooks ?pre "AddFieldOffset ''x''" "[]" ?s
      ?before "[AddFieldOffset ''x'']" exampleScan]
  show "getTargetIndex exampleScan ?s ?hooks = Inr 0"
    by (simp add: searcher_defs)
next
  let ?hooks = "innerClassLayout InnerClassDecl"
  let ?s = "FindClassFieldOffset InnerClassDecl ''y''"
  have "(\<forall>h\<in>set ?hooks. \<not> isTarget ?s h) \<or> NoteAddressPoint \<notin> set ?hooks"
    by (simp add: searcher_defs)
  with C4_locator_offset [of ?hooks _ _ _ ?s _ _ exampleScan]
  show "getTargetIndex exampleScan ?s ?hooks = Inl AssertionFailed" by blast
next
  let ?hooks = "[AddMetadataFlags, AddParentMetadataRef (Some InnerClassDecl)]"
  let ?s = "FindClassParentIndex InnerClassDecl"
  have "(\<forall>h\<in>set ?hooks. \<not> isTarget ?s h) \<or> NoteAddressPoint \<notin> set ?hooks"
    by simp
  with C4_locator_offset [of ?hooks _ _ _ ?s _ _ exampleScan]
  show "getTargetIndex exampleScan ?s ?hooks = Inl AssertionFailed" by blast
qed

text \<open>
  C10. For a declaration nested in a type and a metadata pointer of the metadata
  pointer type: for a struct or an enum, \<^verbatim>\<open>emitParentMetadataRef\<close> emits a cast, an address
  computation at the constant index 2 and a load, whatever the declaration, the scanner
  and the layouts are; for a class the index is the result of \<open>FindClassParentIndex\<close> over
  the class layout of the declaration.
\<close>

theorem C10_parent_lookup:
  assumes "isInTypeContext decl" and "getType metadata = TypeMetadataPtrTy"
  shows "(declKind decl = Struct \<or> declKind decl = Enum \<longrightarrow>
            emitParentMetadataRef scan classLayout IGF decl metadata =
              Inr (InstResult (length (Insts IGF) + 2) TypeMetadataPtrTy,
                   IGF\<lparr>Insts := Insts IGF @
                     [BitCastInst metadata (PointerTo TypeMetadataPtrTy),
                      InBoundsGEPInst
                        (InstResult (length (Insts IGF)) (PointerTo TypeMetadataPtrTy)) 2,
                      LoadInst
                        (InstResult (length (Insts IGF) + 1) (PointerTo TypeMetadataPtrTy))]\<rparr>))
       \<and> (declKind decl = Class \<longrightarrow>
            emitParentMetadataRef scan classLayout IGF decl metadata =
              (case getTargetIndex scan (FindClassParentIndex decl) (classLayout decl) of
                 Inl err \<Rightarrow> Inl err
               | Inr index \<Rightarrow> emitLoadOfMetadataRefAtIndex IGF metadata (sint index)))"
  using assms
  by (auto simp: emitParentMetadataRef_def emitLoadOfMetadataRefAtIndex_def
        emitLoadFromMetadataAtIndex_def emitInst_def)

text \<open>
  The nested struct is read at index 2; the nested class, with the example layout, at
  index \<open>- 2\<close>.
\<close>

theorem C10_parent_lookup_witness:
  "emitParentMetadataRef exampleScan innerClassLayout someIGF InnerStructDecl someMetadata =
     Inr (InstResult 3 TypeMetadataPtrTy,
          someIGF\<lparr>Insts := Insts someIGF @
            [BitCastInst someMetadata (PointerTo TypeMetadataPtrTy),
             InBoundsGEPInst (InstResult 1 (PointerTo TypeMetadataPtrTy)) 2,
             LoadInst (InstResult 2 (PointerTo TypeMetadataPtrTy))]\<rparr>)
   \<and> emitParentMetadataRef exampleScan innerClassLayout someIGF InnerClassDecl someMetadata =
     Inr (InstResult 3 TypeMetadataPtrTy,
          someIGF\<lparr>Insts := Insts someIGF @
            [BitCastInst someMetadata (PointerTo TypeMetadataPtrTy),
             InBoundsGEPInst (InstResult 1 (PointerTo TypeMetadataPtrTy)) (- 2),
             LoadInst (InstResult 2 (PointerTo TypeMetadataPtrTy))]\<rparr>)"
proof
  have pre: "isInTypeContext InnerStructDecl" "getType someMetadata = TypeMetadataPtrTy"
    "declKind InnerStructDecl = Struct \<or> declKind InnerStructDecl = Enum"
    by (simp_all add: InnerStructDecl_def someMetadata_def)
  from C10_parent_lookup [OF pre(1,2), of exampleScan innerClassLayout someIGF] pre(3)
  show "emitParentMetadataRef exampleScan innerClassLayout someIGF InnerStructDecl someMetadata =
     Inr (InstResult 3 TypeMetadataPtrTy,
          someIGF\<lparr>Insts := Insts someIGF @
            [BitCastInst someMetadata (PointerTo TypeMetadataPtrTy),
             InBoundsGEPInst (InstResult 1 (PointerTo TypeMetadataPtrTy)) 2,
             LoadInst (InstResult 2 (PointerTo TypeMetadataPtrTy))]\<rparr>)"
    by (simp add: someIGF_def)
next
  have pre: "isInTypeContext InnerClassDecl" "getType someMetadata = TypeMetadataPtrTy"
    "declKind InnerClassDecl = Class"
    by (simp_all add: InnerClassDecl_def someMetadata_def)
  have idx: "getTargetIndex exampleScan (FindClassParentIndex InnerClassDecl)
       (innerClassLayout InnerClassDecl) = Inr (- 2)"
    by (simp add: getTargetIndex_def newMetadataSearcher_def searcherHook_def
          setTargetIndex_def searcher_defs Let_def)
  from C10_parent_lookup [OF pre(1,2), of exampleScan innerClassLayout someIGF] pre(3) idx
  show "emitParentMetadataRef exampleScan innerClassLayout someIGF InnerClassDecl someMetadata =
     Inr (InstResult 3 TypeMetadataPtrTy,
          someIGF\<lparr>Insts := Insts someIGF @
            [BitCastInst someMetadata (PointerTo TypeMetadataPtrTy),
             InBoundsGEPInst (InstResult 1 (PointerTo TypeMetadataPtrTy)) (- 2),
             LoadInst (InstResult 2 (PointerTo TypeMetadataPtrTy))]\<rparr>)"
    by (simp add: someIGF_def emitLoadOfMetadataRefAtIndex_def
          emitLoadFromMetadataAtIndex_def emitInst_def someMetadata_def)
qed


section \<open>Metadata references: results\<close>

lemmas resolver_defs =
  emitTypeMetadataRef_def tryGetLocal_def tryGetLocalTypeData_def getLocalTypeData_def
  setLocal_def emitInst_def newIRGenFunction_def getTupleLabelsString_def
  nullWitnessTable_def getAddrOfTypeMetadata_def emitDirectMetadataRef_def
  hasKnownSwiftMetadata_def hasKnownSwiftImplementation_def isMetadataIndirect_def
  emitGetGenericMetadata_def callsOf_def Let_def

text \<open>
  C2. Two emissions for the same type in one session should return the same cached value
  and call the runtime at most once. Here the code is run twice on \<^verbatim>\<open>(Int, Int)\<close> in a new
  session: \<open>setLocal\<close> stores nothing, so the second emission finds no local type data,
  calls \<^verbatim>\<open>swift_getTupleMetadata2\<close> again and returns the result of the second call, which
  is another value than the first.
\<close>

theorem C2_tuple_emitted_twice_calls_runtime_twice:
  "(case emitTypeMetadataRef exampleIGM IntPairTy (newIRGenFunction []) of
      Inl err \<Rightarrow> False
    | Inr (first, IGF1) \<Rightarrow>
       (case emitTypeMetadataRef exampleIGM IntPairTy IGF1 of
          Inl err \<Rightarrow> False
        | Inr (second, IGF2) \<Rightarrow>
            first = InstResult 0 TypeMetadataPtrTy \<and> second = InstResult 1 TypeMetadataPtrTy
            \<and> first \<noteq> second
            \<and> callsOf GetTupleMetadata2Fn IGF1 = 1 \<and> callsOf GetTupleMetadata2Fn IGF2 = 2
            \<and> LocalTypeData IGF2 = []))"
  by (simp add: resolver_defs IntPairTy_def example_defs)

text \<open>
  The same for the generic nominal type \<^verbatim>\<open>Pair<Int>\<close>: \<open>emitNominalMetadataRef\<close> looks for
  local type data, saves none, and calls \<^verbatim>\<open>swift_getGenericMetadata\<close> at each emission.
\<close>

lemma generic_nominal_emitted_twice_calls_runtime_twice:
  "(case emitTypeMetadataRef exampleIGM PairOfIntTy (newIRGenFunction []) of
      Inl err \<Rightarrow> False
    | Inr (first, IGF1) \<Rightarrow>
       (case emitTypeMetadataRef exampleIGM PairOfIntTy IGF1 of
          Inl err \<Rightarrow> False
        | Inr (second, IGF2) \<Rightarrow>
            first \<noteq> second
            \<and> callsOf GetGenericMetadataFn IGF1 = 1 \<and> callsOf GetGenericMetadataFn IGF2 = 2
            \<and> LocalTypeData IGF2 = []))"
  by (simp add: resolver_defs PairOfIntTy_def PairDecl_def example_defs)

text \<open>
  C9. In a session that holds no local type data for the one-element tuple type itself,
  resolving the tuple is resolving its element: the same value and the same session
  afterwards, hence the same instructions, with no call of a tuple constructor for the
  tuple.
\<close>

theorem C9_singleton_tuple_is_its_element:
  assumes "tryGetLocalTypeData IGF (TupleType [elt]) = None"
  shows "emitTypeMetadataRef IGM (TupleType [elt]) IGF = emitTypeMetadataRef IGM (snd elt) IGF"
  using assms by (simp add: emitTypeMetadataRef_def tryGetLocal_def)

text \<open>The tuple \<^verbatim>\<open>(x: (Int, Int))\<close> in a new session.\<close>

theorem C9_singleton_tuple_is_its_element_witness:
  "tryGetLocalTypeData (newIRGenFunction []) (TupleType [(''x'', IntPairTy)]) = None
   \<and> emitTypeMetadataRef exampleIGM (TupleType [(''x'', IntPairTy)]) (newIRGenFunction [])
       = emitTypeMetadataRef exampleIGM IntPairTy (newIRGenFunction [])
   \<and> (case emitTypeMetadataRef exampleIGM (TupleType [(''x'', IntPairTy)])
              (newIRGenFunction []) of
         Inl err \<Rightarrow> False
       | Inr (v, IGF) \<Rightarrow> v = InstResult 0 TypeMetadataPtrTy
                          \<and> callsOf GetTupleMetadata2Fn IGF = 1)"
proof -
  have none: "tryGetLocalTypeData (newIRGenFunction []) (TupleType [(''x'', IntPairTy)]) = None"
    by (simp add: tryGetLocalTypeData_def newIRGenFunction_def)
  have elt: "(case emitTypeMetadataRef exampleIGM IntPairTy (newIRGenFunction []) of
         Inl err \<Rightarrow> False
       | Inr (v, IGF) \<Rightarrow> v = InstResult 0 TypeMetadataPtrTy
                          \<and> callsOf GetTupleMetadata2Fn IGF = 1)"
    by (simp add: resolver_defs IntPairTy_def example_defs)
  from C9_singleton_tuple_is_its_element [OF none, of exampleIGM] none elt
  show ?thesis by simp
qed

end
